theory Spec2Isabelle
  imports Complex_Main
begin

section \<open>Conventions of the embedding\<close>

text \<open>
  The Python sources are \<^verbatim>\<open>ml_model/aqi_web_scraper/aqi_forecasting_model.py\<close> and
  \<^verbatim>\<open>ml_model/aqi_web_scraper/forecasting_engine.py\<close>.  Python floats are modelled as
  real numbers, so every arithmetic statement below is one of exact arithmetic; Python
  integers are \<open>int\<close>.  A raised exception is the left injection of a sum.
\<close>

datatype py_error =
  IndexError | ValueError | UnboundLocalError | AttributeError | OverflowError

section \<open>forecasting\_engine.py: temporal patterns\<close>

text \<open>Class constants of \<^verbatim>\<open>ForecastingEngine\<close>.\<close>

definition DIURNAL_PEAK_HOUR :: int where
  "DIURNAL_PEAK_HOUR = 14"

definition RUSH_HOUR_MORNING :: int where
  "RUSH_HOUR_MORNING = 8"

definition RUSH_HOUR_EVENING :: int where
  "RUSH_HOUR_EVENING = 20"

definition WEEKEND_REDUCTION :: real where
  "WEEKEND_REDUCTION = 0.8"

text \<open>
  \<^verbatim>\<open>add_rush_hour_peaks(base_aqi, hour, is_weekday)\<close>: the weekend returns early; the
  morning window is tested before the evening one; \<^verbatim>\<open>peak_distance / 2\<close> is Python's true
  division.
\<close>

definition add_rush_hour_peaks :: "real \<Rightarrow> int \<Rightarrow> bool \<Rightarrow> real" where
  "add_rush_hour_peaks base_aqi hr is_weekday =
     (if \<not> is_weekday then base_aqi
      else
        let rush_hour_boost =
          (if 7 \<le> hr \<and> hr \<le> 9 then
             (let peak_distance = \<bar>hr - RUSH_HOUR_MORNING\<bar>
              in 25 * (1 - real_of_int peak_distance / 2))
           else if 19 \<le> hr \<and> hr \<le> 21 then
             (let peak_distance = \<bar>hr - RUSH_HOUR_EVENING\<bar>
              in 30 * (1 - real_of_int peak_distance / 2))
           else 0)
        in base_aqi + rush_hour_boost)"


text \<open>
  \<^verbatim>\<open>datetime\<close> values, with the fields the engine reads.  The calendar functions follow
  the proleptic Gregorian calendar of Python's \<^verbatim>\<open>datetime\<close> module: \<^verbatim>\<open>weekday()\<close> is 0 on
  Monday, and adding a \<^verbatim>\<open>timedelta\<close> raises \<^verbatim>\<open>OverflowError\<close> past year 9999.
\<close>

record datetime =
  dt_year :: int
  dt_month :: int
  dt_day :: int
  dt_hour :: int
  dt_minute :: int
  dt_second :: int
  dt_microsecond :: int

definition is_leap :: "int \<Rightarrow> bool" where
  "is_leap y = (y mod 4 = 0 \<and> (y mod 100 \<noteq> 0 \<or> y mod 400 = 0))"

definition days_in_month :: "int \<Rightarrow> int \<Rightarrow> int" where
  "days_in_month y m =
     (if m = 2 then (if is_leap y then 29 else 28)
      else if m \<in> set [4, 6, 9, 11] then 30 else 31)"

definition days_before_year :: "int \<Rightarrow> int" where
  "days_before_year y = (y - 1) * 365 + (y - 1) div 4 - (y - 1) div 100 + (y - 1) div 400"

definition days_before_month :: "int \<Rightarrow> int \<Rightarrow> int" where
  "days_before_month y m = sum_list (map (days_in_month y) [1..m - 1])"

definition toordinal :: "datetime \<Rightarrow> int" where
  "toordinal d = days_before_year (dt_year d) + days_before_month (dt_year d) (dt_month d) + dt_day d"

definition weekday :: "datetime \<Rightarrow> int" where
  "weekday d = (toordinal d + 6) mod 7"

definition next_hour :: "datetime \<Rightarrow> py_error + datetime" where
  "next_hour d =
     (if dt_hour d < 23 then Inr (d\<lparr>dt_hour := dt_hour d + 1\<rparr>)
      else if dt_day d < days_in_month (dt_year d) (dt_month d)
        then Inr (d\<lparr>dt_day := dt_day d + 1, dt_hour := 0\<rparr>)
      else if dt_month d < 12
        then Inr (d\<lparr>dt_month := dt_month d + 1, dt_day := 1, dt_hour := 0\<rparr>)
      else if dt_year d < 9999
        then Inr (d\<lparr>dt_year := dt_year d + 1, dt_month := 1, dt_day := 1, dt_hour := 0\<rparr>)
      else Inl OverflowError)"

text \<open>\<^verbatim>\<open>start_time + timedelta(hours=n)\<close>, one hour at a time.\<close>

fun add_hours :: "datetime \<Rightarrow> nat \<Rightarrow> py_error + datetime" where
  "add_hours d 0 = Inr d"
| "add_hours d (Suc n) =
     (case next_hour d of Inl e \<Rightarrow> Inl e | Inr d' \<Rightarrow> add_hours d' n)"

definition SEASONAL_FACTORS :: "string \<rightharpoonup> real" where
  "SEASONAL_FACTORS =
     map_of [(''winter'', 1.3), (''spring'', 1.0), (''monsoon'', 0.7), (''autumn'', 1.1)]"

definition get_season :: "datetime \<Rightarrow> string" where
  "get_season date =
     (let m = dt_month date in
      if m \<in> set [12, 1, 2] then ''winter''
      else if m \<in> set [3, 4, 5] then ''spring''
      else if m \<in> set [6, 7, 8, 9] then ''monsoon''
      else ''autumn'')"

definition add_diurnal_pattern :: "real \<Rightarrow> int \<Rightarrow> real" where
  "add_diurnal_pattern base_aqi hr =
     (let hour_angle = real_of_int (hr - DIURNAL_PEAK_HOUR) * (2 * pi / 24);
          pattern_factor = 1.0 + 0.3 * cos hour_angle
      in base_aqi * pattern_factor)"

definition add_weekly_variation :: "real \<Rightarrow> bool \<Rightarrow> real" where
  "add_weekly_variation base_aqi is_weekend =
     (if is_weekend then base_aqi * WEEKEND_REDUCTION else base_aqi)"

definition add_seasonal_factor :: "real \<Rightarrow> datetime \<Rightarrow> real" where
  "add_seasonal_factor base_aqi date =
     (let season = get_season date;
          factor = (case SEASONAL_FACTORS season of None \<Rightarrow> 1.0 | Some f \<Rightarrow> f)
      in base_aqi * factor)"

section \<open>forecasting\_engine.py: forecast generation\<close>

text \<open>
  The engine's state: the fitted regressor, a collaborator outside the repository, is a
  function from the feature frame to the first predicted value
  (\<^verbatim>\<open>self.model.predict(features)[0]\<close>), absent until trained or loaded;
  \<^verbatim>\<open>model_metrics\<close> is the dictionary of validation metrics.
\<close>

record 'f engine =
  model :: "('f \<Rightarrow> real) option"
  model_metrics :: "string \<rightharpoonup> real"

text \<open>One row of the forecast frame: the dictionary appended in the loop.\<close>

record forecast =
  fc_timestamp :: datetime
  fc_hour_offset :: nat
  fc_aqi_forecast :: real
  fc_aqi_lower :: real
  fc_aqi_upper :: real
  fc_base_aqi :: real
  fc_confidence_interval_width :: real
  fc_season :: string
  fc_is_weekend :: bool
  fc_is_rush_hour :: bool

text \<open>
  The body of the loop of \<^verbatim>\<open>generate_forecast\<close>.  The locals \<^verbatim>\<open>hour\<close> and
  \<^verbatim>\<open>is_weekend\<close> are assigned in the \<^verbatim>\<open>include_patterns\<close> branch only; a local that was
  never assigned is \<open>None\<close>, and reading it raises \<^verbatim>\<open>UnboundLocalError\<close>.  The dictionary
  reads \<^verbatim>\<open>is_weekend\<close> before \<^verbatim>\<open>hour\<close>.
\<close>

definition forecast_point ::
  "('f \<Rightarrow> real) \<Rightarrow> (string \<rightharpoonup> real) \<Rightarrow> 'f \<Rightarrow> datetime \<Rightarrow> bool \<Rightarrow> nat \<Rightarrow> py_error + forecast" where
  "forecast_point predict metrics features start_time include_patterns hour_offset =
     (case add_hours start_time hour_offset of
        Inl e \<Rightarrow> Inl e
      | Inr forecast_time \<Rightarrow>
          let base_aqi = predict features;
              (aqi, hour_local, is_weekend_local) =
                (if include_patterns then
                   (let hr = dt_hour forecast_time;
                        is_weekday = (weekday forecast_time < 5);
                        is_weekend = (\<not> is_weekday);
                        aqi0 = base_aqi;
                        aqi1 = add_seasonal_factor aqi0 forecast_time;
                        aqi2 = add_weekly_variation aqi1 is_weekend;
                        aqi3 = add_diurnal_pattern aqi2 hr;
                        aqi4 = add_rush_hour_peaks aqi3 hr is_weekday
                    in (aqi4, Some hr, Some is_weekend))
                 else (base_aqi, None, None));
              rmse = (case metrics ''test_rmse'' of None \<Rightarrow> 4.57 | Some r \<Rightarrow> r);
              lower_bound = max 0 (aqi - 1.96 * rmse);
              upper_bound = aqi + 1.96 * rmse
          in (case is_weekend_local of
                None \<Rightarrow> Inl UnboundLocalError
              | Some is_weekend \<Rightarrow>
                  (case hour_local of
                     None \<Rightarrow> Inl UnboundLocalError
                   | Some hr \<Rightarrow>
                       Inr \<lparr>fc_timestamp = forecast_time,
                            fc_hour_offset = hour_offset,
                            fc_aqi_forecast = aqi,
                            fc_aqi_lower = lower_bound,
                            fc_aqi_upper = upper_bound,
                            fc_base_aqi = base_aqi,
                            fc_confidence_interval_width = upper_bound - lower_bound,
                            fc_season = get_season forecast_time,
                            fc_is_weekend = is_weekend,
                            fc_is_rush_hour = (hr \<in> set [7, 8, 9, 19, 20, 21])\<rparr>)))"

text \<open>The loop: the first exception ends it.\<close>

fun forecast_loop ::
  "('f \<Rightarrow> real) \<Rightarrow> (string \<rightharpoonup> real) \<Rightarrow> 'f \<Rightarrow> datetime \<Rightarrow> bool \<Rightarrow> nat list \<Rightarrow> py_error + forecast list" where
  "forecast_loop predict metrics features start_time include_patterns [] = Inr []"
| "forecast_loop predict metrics features start_time include_patterns (h # hs) =
     (case forecast_point predict metrics features start_time include_patterns h of
        Inl e \<Rightarrow> Inl e
      | Inr p \<Rightarrow>
          (case forecast_loop predict metrics features start_time include_patterns hs of
             Inl e \<Rightarrow> Inl e
           | Inr ps \<Rightarrow> Inr (p # ps)))"

text \<open>
  \<^verbatim>\<open>generate_forecast\<close> returns the frame of forecast rows.  The entry it appends to
  \<^verbatim>\<open>forecast_history\<close> carries the wall-clock time and is not part of the model.
\<close>

definition generate_forecast ::
  "'f engine \<Rightarrow> 'f \<Rightarrow> datetime \<Rightarrow> int \<Rightarrow> bool \<Rightarrow> py_error + forecast list" where
  "generate_forecast self features start_time forecast_hours include_patterns =
     (case model self of
        None \<Rightarrow> Inl ValueError
      | Some predict \<Rightarrow>
          let hours =
                (if forecast_hours < 1 \<or> forecast_hours > 72
                 then max 1 (min 72 forecast_hours) else forecast_hours)
          in forecast_loop predict (model_metrics self) features start_time include_patterns
               [0..<nat hours])"

text \<open>
  \<^verbatim>\<open>calculate_confidence_intervals\<close>.  The quantile function
  \<^verbatim>\<open>scipy.stats.norm.ppf\<close> is a library function outside the repository and is a
  parameter of the model.
\<close>

definition calculate_confidence_intervals ::
  "(real \<Rightarrow> real) \<Rightarrow> 'f engine \<Rightarrow> real list \<Rightarrow> real \<Rightarrow> real list \<times> real list" where
  "calculate_confidence_intervals norm_ppf self predictions confidence_level =
     (let rmse = (case model_metrics self ''test_rmse'' of None \<Rightarrow> 4.57 | Some r \<Rightarrow> r);
          z_score = norm_ppf ((1 + confidence_level) / 2);
          margin = z_score * rmse;
          lower_bounds = map (\<lambda>p. max 0 (p - margin)) predictions;
          upper_bounds = map (\<lambda>p. p + margin) predictions
      in (lower_bounds, upper_bounds))"

section \<open>forecasting\_engine.py: the pattern stages in rounded arithmetic\<close>

text \<open>
  In exact arithmetic the three multiplicative adjustments commute, so the order in which
  the code applies them cannot be read off a real number.  The functions below are the same
  four functions, and the same four calls of \<^verbatim>\<open>generate_forecast\<close>, with the rounding of
  binary64 arithmetic written out: \<open>fl\<close> rounds the exact result of every floating-point
  operation and every float literal, and \<open>cosf\<close> is \<^verbatim>\<open>np.cos\<close>.  Both are parameters and
  nothing is assumed of them.  With \<open>fl\<close> the identity and \<open>cosf\<close> the cosine they are the
  functions of exact arithmetic above.
\<close>

definition fl_add_seasonal_factor :: "(real \<Rightarrow> real) \<Rightarrow> real \<Rightarrow> datetime \<Rightarrow> real" where
  "fl_add_seasonal_factor fl base_aqi date =
     (let season = get_season date;
          factor = fl (case SEASONAL_FACTORS season of None \<Rightarrow> 1.0 | Some f \<Rightarrow> f)
      in fl (base_aqi * factor))"

definition fl_add_weekly_variation :: "(real \<Rightarrow> real) \<Rightarrow> real \<Rightarrow> bool \<Rightarrow> real" where
  "fl_add_weekly_variation fl base_aqi is_weekend =
     (if is_weekend then fl (base_aqi * fl WEEKEND_REDUCTION) else base_aqi)"

definition fl_add_diurnal_pattern ::
  "(real \<Rightarrow> real) \<Rightarrow> (real \<Rightarrow> real) \<Rightarrow> real \<Rightarrow> int \<Rightarrow> real" where
  "fl_add_diurnal_pattern fl cosf base_aqi hr =
     (let hour_angle = fl (real_of_int (hr - DIURNAL_PEAK_HOUR) * fl (fl (2 * fl pi) / 24));
          pattern_factor = fl (fl 1.0 + fl (fl 0.3 * cosf hour_angle))
      in fl (base_aqi * pattern_factor))"

definition fl_add_rush_hour_peaks :: "(real \<Rightarrow> real) \<Rightarrow> real \<Rightarrow> int \<Rightarrow> bool \<Rightarrow> real" where
  "fl_add_rush_hour_peaks fl base_aqi hr is_weekday =
     (if \<not> is_weekday then base_aqi
      else
        let rush_hour_boost =
          (if 7 \<le> hr \<and> hr \<le> 9 then
             (let peak_distance = \<bar>hr - RUSH_HOUR_MORNING\<bar>
              in fl (25 * fl (1 - fl (real_of_int peak_distance / 2))))
           else if 19 \<le> hr \<and> hr \<le> 21 then
             (let peak_distance = \<bar>hr - RUSH_HOUR_EVENING\<bar>
              in fl (30 * fl (1 - fl (real_of_int peak_distance / 2))))
           else 0)
        in fl (base_aqi + rush_hour_boost))"

text \<open>The branch \<^verbatim>\<open>if include_patterns:\<close> of the loop, from the base AQI to the adjusted one.\<close>

definition fl_apply_patterns ::
  "(real \<Rightarrow> real) \<Rightarrow> (real \<Rightarrow> real) \<Rightarrow> real \<Rightarrow> datetime \<Rightarrow> real" where
  "fl_apply_patterns fl cosf base_aqi forecast_time =
     (let hr = dt_hour forecast_time;
          is_weekday = (weekday forecast_time < 5);
          is_weekend = (\<not> is_weekday);
          aqi0 = base_aqi;
          aqi1 = fl_add_seasonal_factor fl aqi0 forecast_time;
          aqi2 = fl_add_weekly_variation fl aqi1 is_weekend;
          aqi3 = fl_add_diurnal_pattern fl cosf aqi2 hr;
          aqi4 = fl_add_rush_hour_peaks fl aqi3 hr is_weekday
      in aqi4)"

section \<open>aqi\_forecasting\_model.py: spatial interpolation\<close>

text \<open>
  A station is a dictionary with the keys \<^verbatim>\<open>lat\<close>, \<^verbatim>\<open>lon\<close>, \<^verbatim>\<open>aqi\<close> and \<^verbatim>\<open>features\<close>.
  The docstring calls the features an array; the caller in \<^verbatim>\<open>main\<close> passes
  \<^verbatim>\<open>X_test[i].tolist()\<close>, a Python list.  Both containers hold a vector of floats, and only
  the array has the method \<^verbatim>\<open>tolist\<close>.
\<close>

datatype features = PyList "real list" | NdArray "real list"

fun feature_values :: "features \<Rightarrow> real list" where
  "feature_values (PyList v) = v"
| "feature_values (NdArray v) = v"

record station =
  st_lat :: real
  st_lon :: real
  st_aqi :: real
  st_features :: features

record contributor =
  c_distance_km :: real
  c_aqi :: real
  c_weight :: real

record interpolation =
  ir_latitude :: real
  ir_longitude :: real
  ir_interpolated_aqi :: real
  ir_interpolated_features :: "real list"
  ir_method :: string
  ir_k_nearest :: int
  ir_nearest_stations :: "contributor list"

text \<open>\<^verbatim>\<open>np.radians\<close> and the haversine distance on a sphere of radius 6371 km.\<close>

definition radians :: "real \<Rightarrow> real" where
  "radians x = x * pi / 180"

definition haversine_distance :: "real \<Rightarrow> real \<Rightarrow> real \<Rightarrow> real \<Rightarrow> real" where
  "haversine_distance lat1 lon1 lat2 lon2 =
     (let la1 = radians lat1; lo1 = radians lon1; la2 = radians lat2; lo2 = radians lon2;
          dlat = la2 - la1;
          dlon = lo2 - lo1;
          a = (sin (dlat / 2))\<^sup>2 + cos la1 * cos la2 * (sin (dlon / 2))\<^sup>2;
          c = 2 * arcsin (sqrt a);
          r = 6371
      in c * r)"

text \<open>
  \<^verbatim>\<open>np.argsort\<close>: the indices in ascending order of their values.  NumPy leaves the
  order of equal values to the sorting kind; here they keep their original order.
  \<^verbatim>\<open>xs[:k]\<close> keeps the first \<open>k\<close> elements, and all but the last \<open>-k\<close> for a negative
  \<open>k\<close>.  \<^verbatim>\<open>np.argmin\<close> is the first index of the minimum.
\<close>

definition argsort :: "real list \<Rightarrow> nat list" where
  "argsort ds = map snd (sort_key fst (zip ds [0..<length ds]))"

definition py_prefix :: "int \<Rightarrow> 'a list \<Rightarrow> 'a list" where
  "py_prefix k xs = (if k < 0 then take (length xs - nat (- k)) xs else take (nat k) xs)"

definition argmin :: "real list \<Rightarrow> nat" where
  "argmin ds = length (takeWhile (\<lambda>d. d \<noteq> Min (set ds)) ds)"

text \<open>
  \<^verbatim>\<open>acc += v\<close> on arrays of one dimension: \<open>v\<close> has the length of \<open>acc\<close>, or length one
  and is broadcast; any other shape raises \<^verbatim>\<open>ValueError\<close>.
\<close>

definition np_iadd :: "real list \<Rightarrow> real list \<Rightarrow> py_error + real list" where
  "np_iadd acc v =
     (if length v = length acc then Inr (map2 (+) acc v)
      else if length v = 1 then Inr (map (\<lambda>a. a + hd v) acc)
      else Inl ValueError)"

text \<open>The loop \<^verbatim>\<open>for w, station in zip(weights, nearest_stations)\<close> over the features.\<close>

fun interpolate_features :: "real list \<Rightarrow> (real \<times> station) list \<Rightarrow> py_error + real list" where
  "interpolate_features acc [] = Inr acc"
| "interpolate_features acc ((w, s) # rest) =
     (case np_iadd acc (map ((*) w) (feature_values (st_features s))) of
        Inl e \<Rightarrow> Inl e
      | Inr acc' \<Rightarrow> interpolate_features acc' rest)"

text \<open>The k nearest stations and their distances, as the function selects them.\<close>

definition station_distances :: "real \<Rightarrow> real \<Rightarrow> station list \<Rightarrow> real list" where
  "station_distances target_lat target_lon station_data =
     map (\<lambda>s. haversine_distance target_lat target_lon (st_lat s) (st_lon s)) station_data"

definition clamp_k :: "station list \<Rightarrow> int \<Rightarrow> int" where
  "clamp_k station_data k_nearest =
     (if int (length station_data) < k_nearest then int (length station_data) else k_nearest)"

definition nearest_indices :: "real \<Rightarrow> real \<Rightarrow> station list \<Rightarrow> int \<Rightarrow> nat list" where
  "nearest_indices target_lat target_lon station_data k_nearest =
     py_prefix (clamp_k station_data k_nearest)
       (argsort (station_distances target_lat target_lon station_data))"

definition nearest_stations :: "real \<Rightarrow> real \<Rightarrow> station list \<Rightarrow> int \<Rightarrow> station list" where
  "nearest_stations target_lat target_lon station_data k_nearest =
     map (\<lambda>i. station_data ! i) (nearest_indices target_lat target_lon station_data k_nearest)"

definition nearest_distances :: "real \<Rightarrow> real \<Rightarrow> station list \<Rightarrow> int \<Rightarrow> real list" where
  "nearest_distances target_lat target_lon station_data k_nearest =
     map (\<lambda>i. station_distances target_lat target_lon station_data ! i)
       (nearest_indices target_lat target_lon station_data k_nearest)"

text \<open>
  \<^verbatim>\<open>predict_spatial_interpolation\<close>.  Reading \<^verbatim>\<open>nearest_stations[0]\<close> raises
  \<^verbatim>\<open>IndexError\<close> when no station was selected.  In the branch of a station closer than
  100 m the features are those of that station as they are, and the result calls
  \<^verbatim>\<open>tolist\<close> on them, which a Python list does not have.
\<close>

definition predict_spatial_interpolation ::
  "real \<Rightarrow> real \<Rightarrow> station list \<Rightarrow> int \<Rightarrow> int \<Rightarrow> py_error + interpolation" where
  "predict_spatial_interpolation target_lat target_lon station_data k_nearest idw_power =
     (let k = clamp_k station_data k_nearest;
          sts = nearest_stations target_lat target_lon station_data k_nearest;
          dists = nearest_distances target_lat target_lon station_data k_nearest
      in case sts of
           [] \<Rightarrow> Inl IndexError
         | s0 # _ \<Rightarrow>
             let feature_dim = length (feature_values (st_features s0)) in
             if Min (set dists) < 0.1 then
               (let closest_idx = argmin dists;
                    interpolated_aqi = st_aqi (sts ! closest_idx);
                    interpolated_features = st_features (sts ! closest_idx);
                    weights = map (\<lambda>i. if i = closest_idx then 1.0 else 0.0) [0..<length sts]
                in case interpolated_features of
                     PyList v \<Rightarrow> Inl AttributeError
                   | NdArray v \<Rightarrow>
                       Inr \<lparr>ir_latitude = target_lat,
                            ir_longitude = target_lon,
                            ir_interpolated_aqi = interpolated_aqi,
                            ir_interpolated_features = v,
                            ir_method = ''IDW'',
                            ir_k_nearest = k,
                            ir_nearest_stations =
                              map (\<lambda>i. \<lparr>c_distance_km = dists ! i, c_aqi = st_aqi (sts ! i),
                                         c_weight = weights ! i\<rparr>) [0..<length sts]\<rparr>)
             else
               (let weights_raw = map (\<lambda>d. 1.0 / (d powi idw_power)) dists;
                    total_weight = sum_list weights_raw;
                    weights = map (\<lambda>w. w / total_weight) weights_raw;
                    interpolated_aqi = sum_list (map (\<lambda>(w, s). w * st_aqi s) (zip weights sts))
                in case interpolate_features (replicate feature_dim 0) (zip weights sts) of
                     Inl e \<Rightarrow> Inl e
                   | Inr interpolated_features \<Rightarrow>
                       Inr \<lparr>ir_latitude = target_lat,
                            ir_longitude = target_lon,
                            ir_interpolated_aqi = interpolated_aqi,
                            ir_interpolated_features = interpolated_features,
                            ir_method = ''IDW'',
                            ir_k_nearest = k,
                            ir_nearest_stations =
                              map (\<lambda>i. \<lparr>c_distance_km = dists ! i, c_aqi = st_aqi (sts ! i),
                                         c_weight = weights ! i\<rparr>) [0..<length sts]\<rparr>))"

section \<open>aqi\_forecasting\_model.py: satellite and ground fusion\<close>

text \<open>
  \<^verbatim>\<open>round(x, 2)\<close> on a numpy float: to the nearest hundredth, a tie to the even one.
  The value rounded here is the exact real one; the binary64 value the code rounds can lie
  on the other side of a tie and round to the neighbouring hundredth.
\<close>

definition round_half_even :: "real \<Rightarrow> int" where
  "round_half_even y =
     (let f = \<lfloor>y\<rfloor>; d = y - real_of_int f
      in if d < 1 / 2 then f else if 1 / 2 < d then f + 1 else if even f then f else f + 1)"

definition round2 :: "real \<Rightarrow> real" where
  "round2 x = real_of_int (round_half_even (x * 100)) / 100"

definition np_clip :: "real \<Rightarrow> real \<Rightarrow> real \<Rightarrow> real" where
  "np_clip x lo hi = min (max x lo) hi"

record hyperlocal =
  hl_latitude :: real
  hl_longitude :: real
  hl_hyperlocal_aqi :: real
  hl_aod_value :: real
  hl_aod_derived_aqi :: real
  hl_season :: string
  hl_confidence :: string
  hl_method :: string
  hl_temporal_factor :: real
  hl_latitude_factor :: real
  hl_satellite_contribution :: real
  hl_ground_contribution :: real
  hl_nearest_stations_used :: nat

definition seasonal_factors :: "string \<rightharpoonup> real" where
  "seasonal_factors =
     map_of [(''winter'', 1.3), (''summer'', 0.9), (''monsoon'', 0.7), (''autumn'', 1.1)]"

text \<open>
  \<^verbatim>\<open>predict_hyperlocal\<close>.  \<^verbatim>\<open>temporal_features\<close> is a dictionary, read with defaults;
  \<^verbatim>\<open>nearby_stations\<close> and \<^verbatim>\<open>season\<close> default to \<^verbatim>\<open>None\<close>.  The local
  \<^verbatim>\<open>fusion_weights\<close> is assigned in the branch with ground stations only, and the result
  dictionary reads it in every case: a local never assigned is \<open>None\<close> below, and reading
  it raises \<^verbatim>\<open>UnboundLocalError\<close>.
\<close>

definition predict_hyperlocal ::
  "real \<Rightarrow> real \<Rightarrow> real \<Rightarrow> (string \<rightharpoonup> int) \<Rightarrow> station list option \<Rightarrow> string option
     \<Rightarrow> py_error + hyperlocal" where
  "predict_hyperlocal latitude longitude aod_value temporal_features nearby_stations season_arg =
     (let base_aqi_from_aod = 150 * aod_value;
          season =
            (case season_arg of
               Some s \<Rightarrow> s
             | None \<Rightarrow>
                 let m = (case temporal_features ''month'' of None \<Rightarrow> 1 | Some v \<Rightarrow> v) in
                 if m \<in> set [12, 1, 2] then ''winter''
                 else if m \<in> set [3, 4, 5] then ''summer''
                 else if m \<in> set [6, 7, 8, 9] then ''monsoon''
                 else ''autumn'');
          aod_aqi0 = base_aqi_from_aod * (case seasonal_factors season of None \<Rightarrow> 1.0 | Some f \<Rightarrow> f);
          latitude_factor =
            (if 24 \<le> latitude \<and> latitude \<le> 30 then 1.2
             else if latitude > 30 then 0.8
             else 1.0);
          aod_aqi = aod_aqi0 * latitude_factor;
          stations = (case nearby_stations of None \<Rightarrow> [] | Some l \<Rightarrow> l)
      in case
           (if stations \<noteq> [] then
              (case predict_spatial_interpolation latitude longitude stations 3 2 of
                 Inl e \<Rightarrow> Inl e
               | Inr spatial_result \<Rightarrow>
                   let ground_aqi = ir_interpolated_aqi spatial_result;
                       fusion_weights = [''aod'' \<mapsto> 0.4, ''ground'' \<mapsto> 0.6];
                       fused_aqi = the (fusion_weights ''aod'') * aod_aqi
                                 + the (fusion_weights ''ground'') * ground_aqi
                   in Inr (fused_aqi, ''high'', ''Satellite-Ground Fusion'', Some fusion_weights))
            else Inr (aod_aqi, ''medium'', ''Satellite AOD only'', None))
         of
           Inl e \<Rightarrow> Inl e
         | Inr (fused_aqi0, confidence, method, fusion_weights_local) \<Rightarrow>
             let hr = (case temporal_features ''hour'' of None \<Rightarrow> 12 | Some v \<Rightarrow> v);
                 temporal_factor =
                   (if 6 \<le> hr \<and> hr \<le> 9 then 1.15
                    else if 18 \<le> hr \<and> hr \<le> 21 then 1.10
                    else if 0 \<le> hr \<and> hr \<le> 5 then 1.05
                    else 1.0);
                 fused_aqi1 = fused_aqi0 * temporal_factor;
                 fused_aqi = np_clip fused_aqi1 0 500
             in (case fusion_weights_local of
                   None \<Rightarrow> Inl UnboundLocalError
                 | Some (fusion_weights :: string \<rightharpoonup> real) \<Rightarrow>
                     Inr \<lparr>hl_latitude = latitude,
                          hl_longitude = longitude,
                          hl_hyperlocal_aqi = round2 fused_aqi,
                          hl_aod_value = aod_value,
                          hl_aod_derived_aqi = round2 aod_aqi,
                          hl_season = season,
                          hl_confidence = confidence,
                          hl_method = method,
                          hl_temporal_factor = temporal_factor,
                          hl_latitude_factor = latitude_factor,
                          hl_satellite_contribution =
                            (case fusion_weights ''aod'' of None \<Rightarrow> 1.0 | Some w \<Rightarrow> w),
                          hl_ground_contribution =
                            (if stations \<noteq> []
                             then (case fusion_weights ''ground'' of None \<Rightarrow> 0.0 | Some w \<Rightarrow> w)
                             else 0.0),
                          hl_nearest_stations_used = length stations\<rparr>))"

section \<open>aqi\_forecasting\_model.py: AQI categories\<close>

record category_info =
  cat_category :: string
  cat_color :: string
  cat_color_name :: string
  cat_risk_level :: string
  cat_emoji :: string

text \<open>
  \<^verbatim>\<open>AQIHealthAdvisor.get_aqi_category\<close>: a chain of upper bounds with no lower bound
  and no \<^verbatim>\<open>raise\<close>.  The emoji are written as their UTF-8 bytes.
\<close>

definition get_aqi_category :: "real \<Rightarrow> category_info" where
  "get_aqi_category aqi =
     (if aqi \<le> 50 then
        \<lparr>cat_category = ''Good'', cat_color = ''#00E400'', cat_color_name = ''Green'',
         cat_risk_level = ''Minimal'',
         cat_emoji = [CHR 0xF0, CHR 0x9F, CHR 0x98, CHR 0x8A]\<rparr>
      else if aqi \<le> 100 then
        \<lparr>cat_category = ''Satisfactory'', cat_color = ''#FFFF00'', cat_color_name = ''Yellow'',
         cat_risk_level = ''Minor'',
         cat_emoji = [CHR 0xF0, CHR 0x9F, CHR 0x99, CHR 0x82]\<rparr>
      else if aqi \<le> 200 then
        \<lparr>cat_category = ''Moderate'', cat_color = ''#FF7E00'', cat_color_name = ''Orange'',
         cat_risk_level = ''Moderate'',
         cat_emoji = [CHR 0xF0, CHR 0x9F, CHR 0x98, CHR 0x90]\<rparr>
      else if aqi \<le> 300 then
        \<lparr>cat_category = ''Poor'', cat_color = ''#FF0000'', cat_color_name = ''Red'',
         cat_risk_level = ''High'',
         cat_emoji = [CHR 0xF0, CHR 0x9F, CHR 0x98, CHR 0xB7]\<rparr>
      else if aqi \<le> 400 then
        \<lparr>cat_category = ''Very Poor'', cat_color = ''#8F3F97'', cat_color_name = ''Purple'',
         cat_risk_level = ''Very High'',
         cat_emoji = [CHR 0xF0, CHR 0x9F, CHR 0x98, CHR 0xA8]\<rparr>
      else
        \<lparr>cat_category = ''Severe'', cat_color = ''#7E0023'', cat_color_name = ''Maroon'',
         cat_risk_level = ''Severe'',
         cat_emoji = [CHR 0xE2, CHR 0x98, CHR 0xA0, CHR 0xEF, CHR 0xB8, CHR 0x8F]\<rparr>)"

section \<open>aqi\_forecasting\_model.py: ensemble prediction\<close>

text \<open>
  The two fitted models are collaborators outside the repository: the LSTM maps a window
  of rows to a value, the random forest a row to a value, and \<^verbatim>\<open>predict\<close> maps over a
  batch.  Each is absent until trained or loaded.  The lookback is a number of rows.
\<close>

record 'r forecaster =
  lstm_model :: "('r list \<Rightarrow> real) option"
  rf_model :: "('r \<Rightarrow> real) option"

definition create_sequences :: "'r list \<Rightarrow> 'y list \<Rightarrow> nat \<Rightarrow> 'r list list \<times> 'y list" where
  "create_sequences X y lookback =
     (map (\<lambda>i. take lookback (drop (i - lookback) X)) [lookback..<length X],
      map (\<lambda>i. y ! i) [lookback..<length X])"

definition predict_ensemble :: "'r forecaster \<Rightarrow> 'r list \<Rightarrow> nat \<Rightarrow> real \<Rightarrow> py_error + real list" where
  "predict_ensemble self X lookback lstm_weight =
     (case (lstm_model self, rf_model self) of
        (Some lstm, Some rf) \<Rightarrow>
          let X_seq = fst (create_sequences X (replicate (length X) (0::real)) lookback);
              lstm_pred = map lstm X_seq;
              rf_pred_initial = map rf (take lookback X);
              lstm_pred_full = rf_pred_initial @ lstm_pred;
              rf_pred = map rf X;
              ensemble_pred =
                map2 (\<lambda>p q. lstm_weight * p + (1 - lstm_weight) * q) lstm_pred_full rf_pred
          in Inr ensemble_pred
      | _ \<Rightarrow> Inl ValueError)"

section \<open>Sample inputs\<close>

text \<open>
  Concrete inputs on which the properties below are exercised: an engine whose regressor
  always predicts 100 and whose metrics are empty, and Monday 6 January 2025, 08:00.
\<close>

definition sample_engine :: "unit engine" where
  "sample_engine = \<lparr>model = Some (\<lambda>u. 100), model_metrics = Map.empty\<rparr>"

definition monday_8am :: datetime where
  "monday_8am = \<lparr>dt_year = 2025, dt_month = 1, dt_day = 6, dt_hour = 8, dt_minute = 0,
                  dt_second = 0, dt_microsecond = 0\<rparr>"

text \<open>Saturday 4 January 2025, 14:00; and rounding to one decimal place.\<close>

definition saturday_2pm :: datetime where
  "saturday_2pm = \<lparr>dt_year = 2025, dt_month = 1, dt_day = 4, dt_hour = 14, dt_minute = 0,
                    dt_second = 0, dt_microsecond = 0\<rparr>"

definition to_tenths :: "real \<Rightarrow> real" where
  "to_tenths x = real_of_int \<lfloor>10 * x + 1 / 2\<rfloor> / 10"

definition sample_forecaster :: "real forecaster" where
  "sample_forecaster = \<lparr>lstm_model = Some (\<lambda>w. 2 * sum_list w), rf_model = Some (\<lambda>x. x)\<rparr>"

text \<open>
  Stations: one at latitude 28.6139, longitude 77.2090 (the first station of the
  demonstration in \<^verbatim>\<open>main\<close>), once with its features as a Python list, as \<^verbatim>\<open>main\<close> passes
  them, and once as an array; and two on the equator, at longitudes 180 and 60.
\<close>

definition delhi_station_list :: station where
  "delhi_station_list =
     \<lparr>st_lat = 28.6139, st_lon = 77.2090, st_aqi = 120, st_features = PyList [1, 2]\<rparr>"

definition delhi_station_array :: station where
  "delhi_station_array =
     \<lparr>st_lat = 28.6139, st_lon = 77.2090, st_aqi = 120, st_features = NdArray [1, 2]\<rparr>"

definition station_far :: station where
  "station_far = \<lparr>st_lat = 0, st_lon = 180, st_aqi = 100, st_features = NdArray [1]\<rparr>"

definition station_mid :: station where
  "station_mid = \<lparr>st_lat = 0, st_lon = 60, st_aqi = 200, st_features = NdArray [3]\<rparr>"

text \<open>Default arguments of the signatures.\<close>

definition default_lstm_weight :: real where
  "default_lstm_weight = 0.7"

definition default_confidence_level :: real where
  "default_confidence_level = 0.95"

section \<open>Properties\<close>

text \<open>
  C10.  The rush-hour adjustment is additive and applies on weekdays only: in the morning
  window, hours 7 to 9, it adds 25 (1 - |hour - 8| / 2); in the evening window, hours 19
  to 21, it adds 30 (1 - |hour - 20| / 2); outside the windows and on weekends it adds
  nothing.  At base 100 and hour 8 the weekday value is 125 and the weekend value 100.
\<close>

theorem rush_hour_adjust_additive:
  "add_rush_hour_peaks base_aqi hr is_weekday =
     base_aqi +
       (if is_weekday \<and> 7 \<le> hr \<and> hr \<le> 9 then 25 * (1 - \<bar>real_of_int hr - 8\<bar> / 2)
        else if is_weekday \<and> 19 \<le> hr \<and> hr \<le> 21 then 30 * (1 - \<bar>real_of_int hr - 20\<bar> / 2)
        else 0)
   \<and> add_rush_hour_peaks 100 8 True = 125
   \<and> add_rush_hour_peaks 100 8 False = 100"
  by (simp add: add_rush_hour_peaks_def RUSH_HOUR_MORNING_def RUSH_HOUR_EVENING_def Let_def)


subsection \<open>Categories\<close>

text \<open>
  C2 as stated fails: a negative AQI is not rejected.  At \<open>-1\<close> the function returns the
  category Good.
\<close>

theorem get_aqi_category_negative_counterexample:
  "get_aqi_category (- 1) =
     \<lparr>cat_category = ''Good'', cat_color = ''#00E400'', cat_color_name = ''Green'',
      cat_risk_level = ''Minimal'', cat_emoji = [CHR 0xF0, CHR 0x9F, CHR 0x98, CHR 0x8A]\<rparr>"
  by (simp add: get_aqi_category_def)

text \<open>
  C2, amended.  For every negative AQI value \<^verbatim>\<open>get_aqi_category\<close> returns normally, and
  what it returns is the category Good with risk level Minimal, the same record it returns
  at AQI 0.
\<close>

theorem get_aqi_category_negative_good:
  "aqi < 0 \<Longrightarrow>
     get_aqi_category aqi = get_aqi_category 0 \<and>
     cat_category (get_aqi_category aqi) = ''Good'' \<and>
     cat_risk_level (get_aqi_category aqi) = ''Minimal''"
  by (simp add: get_aqi_category_def)

theorem get_aqi_category_negative_good_witness:
  "(- 5 :: real) < 0 \<and>
     get_aqi_category (- 5) = get_aqi_category 0 \<and>
     cat_category (get_aqi_category (- 5)) = ''Good'' \<and>
     cat_risk_level (get_aqi_category (- 5)) = ''Minimal''"
proof -
  have neg: "(- 5 :: real) < 0" by simp
  from neg get_aqi_category_negative_good [OF neg] show ?thesis by (rule conjI)
qed

subsection \<open>Fusion without ground stations\<close>

lemma predict_hyperlocal_no_stations:
  "nearby_stations = None \<or> nearby_stations = Some [] \<Longrightarrow>
     predict_hyperlocal latitude longitude aod_value temporal_features nearby_stations season_arg
       = Inl UnboundLocalError"
  by (auto simp add: predict_hyperlocal_def Let_def)

text \<open>
  C1.  With an empty or absent list of ground stations \<^verbatim>\<open>predict_hyperlocal\<close> does not
  return the satellite-only result: building the result dictionary reads the local
  \<^verbatim>\<open>fusion_weights\<close>, which that path never assigned, and the call ends in
  \<^verbatim>\<open>UnboundLocalError\<close>.  Evaluated at latitude 28.65, longitude 77.25, AOD 0.5, hour 18,
  month 10, season autumn, for the empty list and for no list.
\<close>

theorem predict_hyperlocal_satellite_only_raises:
  "predict_hyperlocal 28.65 77.25 0.5 [''hour'' \<mapsto> 18, ''month'' \<mapsto> 10] (Some []) (Some ''autumn'')
     = Inl UnboundLocalError
   \<and> predict_hyperlocal 28.65 77.25 0.5 [''hour'' \<mapsto> 18, ''month'' \<mapsto> 10] None (Some ''autumn'')
     = Inl UnboundLocalError"
  by (simp add: predict_hyperlocal_no_stations)

subsection \<open>Forecast generation\<close>

lemma forecast_point_no_patterns:
  "forecast_point predict metrics features start_time False 0 = Inl UnboundLocalError"
  by (simp add: forecast_point_def Let_def)

text \<open>
  C4.  With a loaded model and \<^verbatim>\<open>include_patterns=False\<close>, \<^verbatim>\<open>generate_forecast\<close> raises
  \<^verbatim>\<open>UnboundLocalError\<close> while it builds the first forecast point, whatever the features,
  the start time and the horizon: the pattern-free path never returns a forecast.
\<close>

theorem generate_forecast_without_patterns_raises:
  assumes "model self = Some predict"
  shows "forecast_point predict (model_metrics self) features start_time False 0
           = Inl UnboundLocalError
         \<and> generate_forecast self features start_time forecast_hours False
           = Inl UnboundLocalError"
proof -
  define hours where "hours = (if forecast_hours < 1 \<or> forecast_hours > 72
                 then max 1 (min 72 forecast_hours) else forecast_hours)"
  have "1 \<le> hours" by (auto simp: hours_def)
  then obtain n where n: "nat hours = Suc n" by (cases "nat hours") auto
  have "[0..<nat hours] = 0 # [1..<Suc n]" unfolding n by (simp add: upt_rec)
  then show ?thesis using assms
    by (simp add: generate_forecast_def Let_def hours_def[symmetric] forecast_point_no_patterns)
qed

theorem generate_forecast_without_patterns_raises_witness:
  "model sample_engine = Some (\<lambda>u. 100)
   \<and> forecast_point (\<lambda>u. 100) (model_metrics sample_engine) () monday_8am False 0
       = Inl UnboundLocalError
   \<and> generate_forecast sample_engine () monday_8am 24 False = Inl UnboundLocalError"
proof -
  have m: "model sample_engine = Some (\<lambda>u. 100)" by (simp add: sample_engine_def)
  show ?thesis
    using m generate_forecast_without_patterns_raises [OF m, of "()" monday_8am 24] by simp
qed

lemma next_hour_year:
  "dt_year d < 9999 \<Longrightarrow> \<exists>d'. next_hour d = Inr d' \<and> dt_year d' \<le> dt_year d + 1"
  by (simp add: next_hour_def)

lemma add_hours_returns:
  "dt_year d + int n \<le> 9999 \<Longrightarrow>
     \<exists>d'. add_hours d n = Inr d' \<and> dt_year d' \<le> dt_year d + int n"
proof (induction n arbitrary: d)
  case 0
  then show ?case by simp
next
  case (Suc n)
  then have "dt_year d < 9999" by simp
  from next_hour_year[OF this] obtain d1
    where d1: "next_hour d = Inr d1" "dt_year d1 \<le> dt_year d + 1"
    by blast
  with Suc.prems have "dt_year d1 + int n \<le> 9999" by simp
  from Suc.IH[OF this] obtain d'
    where "add_hours d1 n = Inr d'" "dt_year d' \<le> dt_year d1 + int n"
    by blast
  with d1 show ?case by simp
qed

lemma forecast_point_patterns:
  "forecast_point predict metrics features start_time True h = Inr p \<Longrightarrow>
     add_hours start_time h = Inr (fc_timestamp p) \<and> fc_base_aqi p = predict features \<and>
     fc_aqi_forecast p =
       add_rush_hour_peaks
         (add_diurnal_pattern
            (add_weekly_variation (add_seasonal_factor (fc_base_aqi p) (fc_timestamp p))
               (\<not> weekday (fc_timestamp p) < 5))
            (dt_hour (fc_timestamp p)))
         (dt_hour (fc_timestamp p)) (weekday (fc_timestamp p) < 5)"
  by (auto simp add: forecast_point_def Let_def split: sum.splits)

lemma forecast_point_returns:
  "add_hours start_time h = Inr t \<Longrightarrow>
     \<exists>p. forecast_point predict metrics features start_time True h = Inr p"
  by (simp add: forecast_point_def Let_def)

lemma forecast_loop_Inr:
  "forecast_loop predict metrics features start_time inc hs = Inr fs \<Longrightarrow>
     length fs = length hs \<and>
     (\<forall>i<length hs. forecast_point predict metrics features start_time inc (hs ! i) = Inr (fs ! i))"
proof (induction hs arbitrary: fs)
  case Nil
  then show ?case by simp
next
  case (Cons h hs)
  then show ?case
    by (auto split: sum.splits simp: nth_Cons split: nat.splits)
qed

lemma forecast_loop_returns:
  "(\<And>h. h \<in> set hs \<Longrightarrow> \<exists>p. forecast_point predict metrics features start_time inc h = Inr p) \<Longrightarrow>
     \<exists>fs. forecast_loop predict metrics features start_time inc hs = Inr fs"
proof (induction hs)
  case Nil
  then show ?case by simp
next
  case (Cons h hs)
  then obtain p where "forecast_point predict metrics features start_time inc h = Inr p"
    by (meson list.set_intros(1))
  moreover from Cons obtain fs
    where "forecast_loop predict metrics features start_time inc hs = Inr fs"
    by (meson list.set_intros(2))
  ultimately show ?case by simp
qed


lemma add_seasonal_factor_closed:
  "add_seasonal_factor b t =
     b * (if dt_month t \<in> set [12, 1, 2] then 1.3 else if dt_month t \<in> set [3, 4, 5] then 1.0
          else if dt_month t \<in> set [6, 7, 8, 9] then 0.7 else 1.1)"
  by (simp add: add_seasonal_factor_def get_season_def SEASONAL_FACTORS_def Let_def)

lemma add_weekly_variation_closed: "add_weekly_variation b w = b * (if w then 0.8 else 1)"
  by (simp add: add_weekly_variation_def WEEKEND_REDUCTION_def)

lemma add_diurnal_pattern_closed:
  "add_diurnal_pattern b h = b * (1 + 0.3 * cos (real_of_int (h - 14) * (2 * pi / 24)))"
  by (simp add: add_diurnal_pattern_def DIURNAL_PEAK_HOUR_def Let_def)

lemma add_rush_hour_peaks_closed:
  "add_rush_hour_peaks b h wd =
     b + (if wd \<and> 7 \<le> h \<and> h \<le> 9 then 25 * (1 - \<bar>real_of_int h - 8\<bar> / 2)
          else if wd \<and> 19 \<le> h \<and> h \<le> 21 then 30 * (1 - \<bar>real_of_int h - 20\<bar> / 2)
          else 0)"
  by (simp add: add_rush_hour_peaks_def RUSH_HOUR_MORNING_def RUSH_HOUR_EVENING_def Let_def)

lemma fl_apply_patterns_exact:
  "fl_apply_patterns (\<lambda>x. x) cos b t =
     add_rush_hour_peaks
       (add_diurnal_pattern (add_weekly_variation (add_seasonal_factor b t) (\<not> weekday t < 5))
          (dt_hour t))
       (dt_hour t) (weekday t < 5)"
  by (simp add: fl_apply_patterns_def fl_add_seasonal_factor_def fl_add_weekly_variation_def
      fl_add_diurnal_pattern_def fl_add_rush_hour_peaks_def add_seasonal_factor_def
      add_weekly_variation_def add_diurnal_pattern_def add_rush_hour_peaks_def Let_def)

lemma fl_apply_patterns_closed:
  "fl_apply_patterns fl cosf b t =
     (let hr = dt_hour t; m = dt_month t; wd = (weekday t < 5);
          seasonal = fl (if m \<in> set [12, 1, 2] then 1.3 else if m \<in> set [3, 4, 5] then 1.0
                         else if m \<in> set [6, 7, 8, 9] then 0.7 else 1.1);
          x1 = fl (b * seasonal);
          x2 = (if wd then x1 else fl (x1 * fl 0.8));
          angle = fl (real_of_int (hr - 14) * fl (fl (2 * fl pi) / 24));
          diurnal = fl (fl 1 + fl (fl 0.3 * cosf angle));
          x3 = fl (x2 * diurnal)
      in if \<not> wd then x3
         else if 7 \<le> hr \<and> hr \<le> 9
           then fl (x3 + fl (25 * fl (1 - fl (\<bar>real_of_int hr - 8\<bar> / 2))))
         else if 19 \<le> hr \<and> hr \<le> 21
           then fl (x3 + fl (30 * fl (1 - fl (\<bar>real_of_int hr - 20\<bar> / 2))))
         else fl (x3 + 0))"
  by (simp add: fl_apply_patterns_def fl_add_seasonal_factor_def fl_add_weekly_variation_def
      fl_add_diurnal_pattern_def fl_add_rush_hour_peaks_def get_season_def SEASONAL_FACTORS_def
      WEEKEND_REDUCTION_def DIURNAL_PEAK_HOUR_def RUSH_HOUR_MORNING_def RUSH_HOUR_EVENING_def
      Let_def)

text \<open>
  C6.  Every row of a forecast generated with patterns has as its adjusted AQI the base AQI
  times the seasonal factor of the row's month, times 0.8 on a weekend, times the diurnal
  factor 1 + 0.3 cos(2 pi (hour - 14) / 24), plus the weekday rush-hour boost of the row's
  hour: the rush-hour adjustment of the diurnal adjustment of the weekly adjustment of the
  seasonal adjustment of the base, each stage applied to the value the stage before it
  produced.  With a loaded model and a start time at least 72 years before the end of the
  calendar the forecast is returned, has the clamped number of rows, and row \<open>i\<close> is the
  one for \<open>i\<close> hours after the start, with the model's prediction as its base.  In rounded
  arithmetic, whatever the rounding, the adjusted value is the rounded seasonal product,
  then on a weekend its rounded product with 0.8, then its rounded product with the diurnal
  factor, then on a weekday its rounded sum with the boost, in this order.
\<close>

theorem generate_forecast_pattern_order:
  "(\<forall>fs p. generate_forecast self features start_time forecast_hours True = Inr fs \<longrightarrow>
      p \<in> set fs \<longrightarrow>
      (let t = fc_timestamp p; hr = dt_hour t; m = dt_month t; wd = (weekday t < 5);
           seasonal = (if m \<in> set [12, 1, 2] then 1.3 else if m \<in> set [3, 4, 5] then 1.0
                       else if m \<in> set [6, 7, 8, 9] then 0.7 else 1.1);
           weekly = (if wd then 1 else 0.8);
           diurnal = 1 + 0.3 * cos (real_of_int (hr - 14) * (2 * pi / 24));
           rush = (if wd \<and> 7 \<le> hr \<and> hr \<le> 9 then 25 * (1 - \<bar>real_of_int hr - 8\<bar> / 2)
                   else if wd \<and> 19 \<le> hr \<and> hr \<le> 21 then 30 * (1 - \<bar>real_of_int hr - 20\<bar> / 2)
                   else 0)
       in fc_aqi_forecast p = ((fc_base_aqi p * seasonal) * weekly) * diurnal + rush
          \<and> fc_aqi_forecast p =
              add_rush_hour_peaks
                (add_diurnal_pattern
                   (add_weekly_variation (add_seasonal_factor (fc_base_aqi p) t) (\<not> wd)) hr)
                hr wd
          \<and> fc_aqi_forecast p = fl_apply_patterns (\<lambda>x. x) cos (fc_base_aqi p) t))
   \<and> (model self \<noteq> None \<longrightarrow> dt_year start_time + 72 \<le> 9999 \<longrightarrow>
        (\<exists>fs. generate_forecast self features start_time forecast_hours True = Inr fs \<and>
              length fs = nat (max 1 (min 72 forecast_hours)) \<and>
              (\<forall>i<length fs. add_hours start_time i = Inr (fc_timestamp (fs ! i)) \<and>
                               fc_base_aqi (fs ! i) = the (model self) features)))
   \<and> fl_apply_patterns fl cosf b t =
       (let hr = dt_hour t; m = dt_month t; wd = (weekday t < 5);
            seasonal = fl (if m \<in> set [12, 1, 2] then 1.3 else if m \<in> set [3, 4, 5] then 1.0
                           else if m \<in> set [6, 7, 8, 9] then 0.7 else 1.1);
            x1 = fl (b * seasonal);
            x2 = (if wd then x1 else fl (x1 * fl 0.8));
            angle = fl (real_of_int (hr - 14) * fl (fl (2 * fl pi) / 24));
            diurnal = fl (fl 1 + fl (fl 0.3 * cosf angle));
            x3 = fl (x2 * diurnal)
        in if \<not> wd then x3
           else if 7 \<le> hr \<and> hr \<le> 9
             then fl (x3 + fl (25 * fl (1 - fl (\<bar>real_of_int hr - 8\<bar> / 2))))
           else if 19 \<le> hr \<and> hr \<le> 21
             then fl (x3 + fl (30 * fl (1 - fl (\<bar>real_of_int hr - 20\<bar> / 2))))
           else fl (x3 + 0))"
proof (intro conjI allI impI)
  fix fs p
  assume g: "generate_forecast self features start_time forecast_hours True = Inr fs"
    and p: "p \<in> set fs"
  from g obtain predict hs where
    l: "forecast_loop predict (model_metrics self) features start_time True hs = Inr fs"
    by (auto simp: generate_forecast_def Let_def split: option.splits)
  from p obtain i where i: "i < length fs" "fs ! i = p" by (auto simp: in_set_conv_nth)
  from forecast_loop_Inr[OF l] i
  have "forecast_point predict (model_metrics self) features start_time True (hs ! i) = Inr p"
    by auto
  from forecast_point_patterns[OF this]
  have c: "fc_aqi_forecast p =
        add_rush_hour_peaks
          (add_diurnal_pattern
             (add_weekly_variation (add_seasonal_factor (fc_base_aqi p) (fc_timestamp p))
                (\<not> weekday (fc_timestamp p) < 5))
             (dt_hour (fc_timestamp p)))
          (dt_hour (fc_timestamp p)) (weekday (fc_timestamp p) < 5)"
    by simp
  show "let t = fc_timestamp p; hr = dt_hour t; m = dt_month t; wd = (weekday t < 5);
           seasonal = (if m \<in> set [12, 1, 2] then 1.3 else if m \<in> set [3, 4, 5] then 1.0
                       else if m \<in> set [6, 7, 8, 9] then 0.7 else 1.1);
           weekly = (if wd then 1 else 0.8);
           diurnal = 1 + 0.3 * cos (real_of_int (hr - 14) * (2 * pi / 24));
           rush = (if wd \<and> 7 \<le> hr \<and> hr \<le> 9 then 25 * (1 - \<bar>real_of_int hr - 8\<bar> / 2)
                   else if wd \<and> 19 \<le> hr \<and> hr \<le> 21 then 30 * (1 - \<bar>real_of_int hr - 20\<bar> / 2)
                   else 0)
       in fc_aqi_forecast p = ((fc_base_aqi p * seasonal) * weekly) * diurnal + rush
          \<and> fc_aqi_forecast p =
              add_rush_hour_peaks
                (add_diurnal_pattern
                   (add_weekly_variation (add_seasonal_factor (fc_base_aqi p) t) (\<not> wd)) hr)
                hr wd
          \<and> fc_aqi_forecast p = fl_apply_patterns (\<lambda>x. x) cos (fc_base_aqi p) t"
    unfolding Let_def fl_apply_patterns_exact
    using c by (simp add: add_rush_hour_peaks_closed add_diurnal_pattern_closed
        add_weekly_variation_closed add_seasonal_factor_closed)
next
  assume m: "model self \<noteq> None" and y: "dt_year start_time + 72 \<le> 9999"
  from m obtain predict where pr: "model self = Some predict" by auto
  define hours where "hours = nat (max 1 (min 72 forecast_hours))"
  have hours72: "hours \<le> 72" by (simp add: hours_def)
  have g: "generate_forecast self features start_time forecast_hours True =
           forecast_loop predict (model_metrics self) features start_time True [0..<hours]"
    using pr by (auto simp: generate_forecast_def Let_def hours_def max_def min_def)
  have "\<exists>p. forecast_point predict (model_metrics self) features start_time True h = Inr p"
    if "h \<in> set [0..<hours]" for h
  proof -
    from that hours72 y have "dt_year start_time + int h \<le> 9999" by simp
    from add_hours_returns[OF this] obtain t where "add_hours start_time h = Inr t" by blast
    from forecast_point_returns[OF this] show ?thesis .
  qed
  from forecast_loop_returns[of "[0..<hours]", OF this] obtain fs where
    fs: "forecast_loop predict (model_metrics self) features start_time True [0..<hours] = Inr fs"
    by blast
  from forecast_loop_Inr[OF fs] have len: "length fs = hours"
    and pt: "\<And>i. i < hours \<Longrightarrow>
       forecast_point predict (model_metrics self) features start_time True i = Inr (fs ! i)"
    by auto
  have "add_hours start_time i = Inr (fc_timestamp (fs ! i)) \<and>
        fc_base_aqi (fs ! i) = the (model self) features" if "i < length fs" for i
    using forecast_point_patterns[OF pt[of i]] that len pr by simp
  with g fs len
  show "\<exists>fs. generate_forecast self features start_time forecast_hours True = Inr fs \<and>
              length fs = nat (max 1 (min 72 forecast_hours)) \<and>
              (\<forall>i<length fs. add_hours start_time i = Inr (fc_timestamp (fs ! i)) \<and>
                               fc_base_aqi (fs ! i) = the (model self) features)"
    by (auto simp: hours_def)
next
  show "fl_apply_patterns fl cosf b t =
       (let hr = dt_hour t; m = dt_month t; wd = (weekday t < 5);
            seasonal = fl (if m \<in> set [12, 1, 2] then 1.3 else if m \<in> set [3, 4, 5] then 1.0
                           else if m \<in> set [6, 7, 8, 9] then 0.7 else 1.1);
            x1 = fl (b * seasonal);
            x2 = (if wd then x1 else fl (x1 * fl 0.8));
            angle = fl (real_of_int (hr - 14) * fl (fl (2 * fl pi) / 24));
            diurnal = fl (fl 1 + fl (fl 0.3 * cosf angle));
            x3 = fl (x2 * diurnal)
        in if \<not> wd then x3
           else if 7 \<le> hr \<and> hr \<le> 9
             then fl (x3 + fl (25 * fl (1 - fl (\<bar>real_of_int hr - 8\<bar> / 2))))
           else if 19 \<le> hr \<and> hr \<le> 21
             then fl (x3 + fl (30 * fl (1 - fl (\<bar>real_of_int hr - 20\<bar> / 2))))
           else fl (x3 + 0))"
    by (rule fl_apply_patterns_closed)
qed

text \<open>
  The order is observable under rounding: with results rounded to one decimal place, on a
  winter weekend, base 0.5 becomes 0.6 when the seasonal factor is applied before the weekly
  one and 0.5 when the two are exchanged.
\<close>

lemma rounded_order_observable:
  "fl_add_weekly_variation to_tenths (fl_add_seasonal_factor to_tenths 0.5 saturday_2pm) True = 0.6
   \<and> fl_add_seasonal_factor to_tenths (fl_add_weekly_variation to_tenths 0.5 True) saturday_2pm = 0.5"
proof -
  have m: "get_season saturday_2pm = ''winter''" by (simp add: get_season_def saturday_2pm_def)
  have s: "SEASONAL_FACTORS ''winter'' = Some 1.3" by (simp add: SEASONAL_FACTORS_def)
  have a: "fl_add_seasonal_factor to_tenths 0.5 saturday_2pm = 0.7"
    unfolding fl_add_seasonal_factor_def Let_def m s by (simp add: to_tenths_def)
  have b: "fl_add_weekly_variation to_tenths 0.7 True = 0.6"
    by (simp add: fl_add_weekly_variation_def WEEKEND_REDUCTION_def to_tenths_def)
  have c: "fl_add_weekly_variation to_tenths 0.5 True = 0.4"
    by (simp add: fl_add_weekly_variation_def WEEKEND_REDUCTION_def to_tenths_def)
  have d: "fl_add_seasonal_factor to_tenths 0.4 saturday_2pm = 0.5"
    unfolding fl_add_seasonal_factor_def Let_def m s by (simp add: to_tenths_def)
  show ?thesis unfolding a b c d by simp
qed

lemma weekday_monday_8am: "weekday monday_8am = 0"
  by (simp add: monday_8am_def weekday_def toordinal_def days_before_year_def
      days_before_month_def)

lemma cos_six_hours_before_peak: "cos (- (6 * (2 * pi / 24))) = 0"
proof -
  have "- (6 * (2 * pi / 24)) = - (pi / 2)" by simp
  then show ?thesis by (simp only: cos_minus cos_pi_half)
qed

lemma add_hours_monday: "add_hours monday_8am 0 = Inr monday_8am"
  "add_hours monday_8am 1 = Inr (monday_8am\<lparr>dt_hour := 9\<rparr>)"
  by (simp_all add: next_hour_def monday_8am_def)

lemma weekday_monday_9am: "weekday (monday_8am\<lparr>dt_hour := 9\<rparr>) = 0"
  by (simp add: monday_8am_def weekday_def toordinal_def days_before_year_def
      days_before_month_def)

lemma weekday_saturday_2pm: "weekday saturday_2pm = 5"
  by (simp add: saturday_2pm_def weekday_def toordinal_def days_before_year_def
      days_before_month_def)

lemma cos_five_hours_before_peak: "cos (- (5 * (2 * pi / 24))) = cos (5 * pi / 12)"
proof -
  have "- (5 * (2 * pi / 24)) = - (5 * pi / 12)" by simp
  then show ?thesis by (simp only: cos_minus)
qed

lemma closed_monday_8am:
  "((100 * 1.3) * 1) * (1 + 0.3 * cos (real_of_int (8 - 14) * (2 * pi / 24)))
     + 25 * (1 - \<bar>real_of_int 8 - 8\<bar> / 2) = (155::real)"
  by (simp add: cos_six_hours_before_peak)

lemma closed_monday_9am:
  "((100 * 1.3) * 1) * (1 + 0.3 * cos (real_of_int (9 - 14) * (2 * pi / 24)))
     + 25 * (1 - \<bar>real_of_int 9 - 8\<bar> / 2) = 130 * (1 + 0.3 * cos (5 * pi / 12)) + 12.5"
  by (simp add: cos_five_hours_before_peak)

lemma closed_saturday_2pm:
  "((100 * 1.3) * 0.8) * (1 + 0.3 * cos (real_of_int (14 - 14) * (2 * pi / 24))) + 0 = (135.2::real)"
  by simp

lemma to_tenths_values:
  "to_tenths 0 = 0" "to_tenths 1 = 1" "to_tenths (3 / 10) = 3 / 10" "to_tenths (4 / 5) = 4 / 5"
  "to_tenths (13 / 10) = 13 / 10" "to_tenths (13 / 20) = 7 / 10" "to_tenths (14 / 25) = 3 / 5"
  "to_tenths (39 / 50) = 4 / 5"
  by (simp_all add: to_tenths_def)

theorem generate_forecast_pattern_order_witness:
  "model sample_engine \<noteq> None \<and> dt_year monday_8am + 72 \<le> 9999
   \<and> dt_year saturday_2pm + 72 \<le> 9999
   \<and> (\<exists>p q. generate_forecast sample_engine () monday_8am 2 True = Inr [p, q] \<and>
           fc_timestamp p = monday_8am \<and> fc_base_aqi p = 100 \<and> fc_aqi_forecast p = 155 \<and>
           fc_timestamp q = monday_8am\<lparr>dt_hour := 9\<rparr> \<and> fc_base_aqi q = 100 \<and>
           fc_aqi_forecast q = 130 * (1 + 0.3 * cos (5 * pi / 12)) + 12.5)
   \<and> (\<exists>p. generate_forecast sample_engine () saturday_2pm 1 True = Inr [p] \<and>
           fc_timestamp p = saturday_2pm \<and> fc_base_aqi p = 100 \<and> fc_aqi_forecast p = 135.2)
   \<and> fl_apply_patterns to_tenths cos 0.5 saturday_2pm = 0.8"
proof -
  have a: "model sample_engine \<noteq> None" by (simp add: sample_engine_def)
  have m100: "the (model sample_engine) () = 100" by (simp add: sample_engine_def)
  have b: "dt_year monday_8am + 72 \<le> 9999" by (simp add: monday_8am_def)
  have c: "dt_year saturday_2pm + 72 \<le> 9999" by (simp add: saturday_2pm_def)
  have fm: "dt_hour monday_8am = 8" "dt_month monday_8am = 1"
    "dt_hour (monday_8am\<lparr>dt_hour := 9\<rparr>) = 9" "dt_month (monday_8am\<lparr>dt_hour := 9\<rparr>) = 1"
    by (simp_all add: monday_8am_def)
  have fs2: "dt_hour saturday_2pm = 14" "dt_month saturday_2pm = 1"
    by (simp_all add: saturday_2pm_def)
  note mon = generate_forecast_pattern_order [where self = sample_engine and features = "()"
      and start_time = monday_8am and forecast_hours = 2]
  note sat = generate_forecast_pattern_order [where self = sample_engine and features = "()"
      and start_time = saturday_2pm and forecast_hours = 1
      and fl = to_tenths and cosf = cos and b = "0.5" and t = saturday_2pm]
  note monA = mon [THEN conjunct1, rule_format]
  note monB = mon [THEN conjunct2, THEN conjunct1, rule_format]
  note satA = sat [THEN conjunct1, rule_format]
  note satB = sat [THEN conjunct2, THEN conjunct1, rule_format]
  note satC = sat [THEN conjunct2, THEN conjunct2]
  \<comment> \<open>two rows from Monday 08:00\<close>
  from monB [OF a b] obtain fs where
    fs: "generate_forecast sample_engine () monday_8am 2 True = Inr fs" "length fs = 2"
    and rows: "\<forall>i<length fs. add_hours monday_8am i = Inr (fc_timestamp (fs ! i)) \<and>
                 fc_base_aqi (fs ! i) = the (model sample_engine) ()"
    by auto
  from fs(2) obtain p q where pq: "fs = [p, q]"
    by (auto simp add: length_Suc_conv numeral_2_eq_2)
  have l0: "0 < length fs" and l1: "1 < length fs" using fs(2) by simp_all
  from rows [rule_format, OF l0]
  have t0: "fc_timestamp p = monday_8am" and b0: "fc_base_aqi p = 100"
    unfolding add_hours_monday m100 pq by simp_all
  from rows [rule_format, OF l1]
  have t1: "fc_timestamp q = monday_8am\<lparr>dt_hour := 9\<rparr>" and b1: "fc_base_aqi q = 100"
    unfolding add_hours_monday m100 pq by simp_all
  have in0: "p \<in> set fs" and in1: "q \<in> set fs" by (simp_all add: pq)
  have v0: "fc_aqi_forecast p = 155"
    using monA [OF fs(1) in0] closed_monday_8am
    by (simp add: Let_def t0 b0 weekday_monday_8am fm)
  have v1: "fc_aqi_forecast q = 130 * (1 + 0.3 * cos (5 * pi / 12)) + 12.5"
    using monA [OF fs(1) in1] closed_monday_9am
    by (simp add: Let_def t1 b1 weekday_monday_9am fm)
  \<comment> \<open>one row from Saturday 14:00\<close>
  from satB [OF a c] obtain gs where
    gs: "generate_forecast sample_engine () saturday_2pm 1 True = Inr gs" "length gs = 1"
    and srows: "\<forall>i<length gs. add_hours saturday_2pm i = Inr (fc_timestamp (gs ! i)) \<and>
                 fc_base_aqi (gs ! i) = the (model sample_engine) ()"
    by auto
  from gs(2) obtain r where r: "gs = [r]" by (auto simp add: length_Suc_conv)
  have g0: "0 < length gs" using gs(2) by simp
  from srows [rule_format, OF g0]
  have s0: "fc_timestamp r = saturday_2pm" and sb0: "fc_base_aqi r = 100"
    unfolding m100 r by simp_all
  have sin0: "r \<in> set gs" by (simp add: r)
  have w0: "fc_aqi_forecast r = 135.2"
    using satA [OF gs(1) sin0] closed_saturday_2pm
    by (simp add: Let_def s0 sb0 weekday_saturday_2pm fs2)
  \<comment> \<open>the rounded pipeline on Saturday 14:00\<close>
  have rd: "fl_apply_patterns to_tenths cos 0.5 saturday_2pm = 0.8"
    using satC by (simp add: Let_def weekday_saturday_2pm fs2 to_tenths_values)
  from fs(1) t0 b0 v0 t1 b1 v1
  have e1: "\<exists>p q. generate_forecast sample_engine () monday_8am 2 True = Inr [p, q] \<and>
           fc_timestamp p = monday_8am \<and> fc_base_aqi p = 100 \<and> fc_aqi_forecast p = 155 \<and>
           fc_timestamp q = monday_8am\<lparr>dt_hour := 9\<rparr> \<and> fc_base_aqi q = 100 \<and>
           fc_aqi_forecast q = 130 * (1 + 0.3 * cos (5 * pi / 12)) + 12.5"
    unfolding pq by blast
  from gs(1) s0 sb0 w0
  have e2: "\<exists>p. generate_forecast sample_engine () saturday_2pm 1 True = Inr [p] \<and>
           fc_timestamp p = saturday_2pm \<and> fc_base_aqi p = 100 \<and> fc_aqi_forecast p = 135.2"
    unfolding r by blast
  from a b c e1 e2 rd show ?thesis by (intro conjI)
qed

subsection \<open>Confidence intervals\<close>

text \<open>
  C5 as stated fails for a negative point value: the lower bound is clamped at 0 and lies
  above the point.  At point \<open>-10\<close>, with no stored RMSE (so 4.57) and z 1.96, the lower
  bound is 0.
\<close>

theorem confidence_interval_negative_point_counterexample:
  "\<not> (hd (fst (calculate_confidence_intervals (\<lambda>q. 1.96) sample_engine [- 10]
               default_confidence_level)) \<le> - 10)"
  by (simp add: calculate_confidence_intervals_def sample_engine_def Let_def)

text \<open>
  C5, amended.  For every RMSE at least 0 and z-score at least 0 (z is
  \<^verbatim>\<open>norm.ppf((1 + confidence_level) / 2)\<close>, about 1.96 at the default level), every
  point has the bounds lower = max(0, point - z rmse) and upper = point + z rmse, with
  lower at least 0 and point at most upper; and lower is at most the point for every point
  value that is at least 0.
\<close>

theorem confidence_interval_bounds:
  assumes "0 \<le> (case model_metrics self ''test_rmse'' of None \<Rightarrow> 4.57 | Some r \<Rightarrow> r)"
    and "0 \<le> norm_ppf ((1 + confidence_level) / 2)"
    and "i < length predictions"
  shows "let ci = calculate_confidence_intervals norm_ppf self predictions confidence_level;
             lower = fst ci ! i;
             upper = snd ci ! i;
             z = norm_ppf ((1 + confidence_level) / 2);
             rmse = (case model_metrics self ''test_rmse'' of None \<Rightarrow> 4.57 | Some r \<Rightarrow> r);
             point = predictions ! i
         in length (fst ci) = length predictions \<and> length (snd ci) = length predictions \<and>
            lower = max 0 (point - z * rmse) \<and>
            upper = point + z * rmse \<and>
            0 \<le> lower \<and> point \<le> upper \<and>
            (0 \<le> point \<longrightarrow> lower \<le> point)"
  using assms by (auto simp add: calculate_confidence_intervals_def Let_def)

theorem confidence_interval_bounds_witness:
  "(0::real) \<le> (case model_metrics sample_engine ''test_rmse'' of None \<Rightarrow> 4.57 | Some r \<Rightarrow> r)
   \<and> (0::real) \<le> (\<lambda>q. 1.96) ((1 + default_confidence_level) / 2)
   \<and> (0::nat) < length [50::real]
   \<and> fst (calculate_confidence_intervals (\<lambda>q. 1.96) sample_engine [50] default_confidence_level) ! 0
       = 41.0428
   \<and> snd (calculate_confidence_intervals (\<lambda>q. 1.96) sample_engine [50] default_confidence_level) ! 0
       = 58.9572
   \<and> fst (calculate_confidence_intervals (\<lambda>q. 1.96) sample_engine [50] default_confidence_level) ! 0
       \<le> 50
   \<and> 50 \<le> snd (calculate_confidence_intervals (\<lambda>q. 1.96) sample_engine [50]
              default_confidence_level) ! 0"
  using confidence_interval_bounds
    [of sample_engine "\<lambda>q. 1.96" default_confidence_level 0 "[50]"]
  by (simp add: sample_engine_def Let_def)

text \<open>
  The rows of \<^verbatim>\<open>generate_forecast\<close> carry the same interval with the constant 1.96 for z.
\<close>

lemma forecast_point_bounds:
  assumes "forecast_point predict metrics features start_time include_patterns h = Inr p"
    and "rmse = (case metrics ''test_rmse'' of None \<Rightarrow> 4.57 | Some r \<Rightarrow> r)"
  shows "fc_aqi_lower p = max 0 (fc_aqi_forecast p - 1.96 * rmse)"
    and "fc_aqi_upper p = fc_aqi_forecast p + 1.96 * rmse"
    and "0 \<le> fc_aqi_lower p"
    and "0 \<le> rmse \<Longrightarrow> fc_aqi_forecast p \<le> fc_aqi_upper p"
    and "0 \<le> rmse \<Longrightarrow> 0 \<le> fc_aqi_forecast p \<Longrightarrow> fc_aqi_lower p \<le> fc_aqi_forecast p"
  using assms
  by (auto simp add: forecast_point_def Let_def split: sum.splits if_splits)

subsection \<open>Ensemble\<close>

text \<open>
  C9.  For a batch longer than the lookback, with both models present, the ensemble
  returns one value per row; at each of the first \<open>lookback\<close> positions the value is the
  blend with the random forest's output in the place of the LSTM's, which is the random
  forest's output itself; at every later position it is
  \<open>lstm_weight\<close> times the LSTM's output on the window of the \<open>lookback\<close> rows before it
  plus \<open>1 - lstm_weight\<close> times the random forest's output on the row.
\<close>

theorem predict_ensemble_blend:
  assumes l: "lstm_model self = Some lstm" and r: "rf_model self = Some rf"
    and lb: "lookback < length X"
  shows "\<exists>ys. predict_ensemble self X lookback lstm_weight = Inr ys \<and>
              length ys = length X \<and>
              (\<forall>i<lookback. ys ! i = rf (X ! i) \<and>
                   ys ! i = lstm_weight * rf (X ! i) + (1 - lstm_weight) * rf (X ! i)) \<and>
              (\<forall>i. lookback \<le> i \<and> i < length X \<longrightarrow>
                   ys ! i = lstm_weight * lstm (take lookback (drop (i - lookback) X))
                            + (1 - lstm_weight) * rf (X ! i))"
proof -
  define full where
    "full = map rf (take lookback X)
            @ map lstm (fst (create_sequences X (replicate (length X) (0::real)) lookback))"
  define ys where "ys = map2 (\<lambda>p q. lstm_weight * p + (1 - lstm_weight) * q) full (map rf X)"
  have pe: "predict_ensemble self X lookback lstm_weight = Inr ys"
    using l r by (simp add: predict_ensemble_def Let_def ys_def full_def)
  have lenfull: "length full = length X"
    using lb by (simp add: full_def create_sequences_def)
  then have len: "length ys = length X" by (simp add: ys_def)
  have nth: "ys ! i = lstm_weight * full ! i + (1 - lstm_weight) * rf (X ! i)"
    if "i < length X" for i
    using that lenfull by (simp add: ys_def)
  have early: "full ! i = rf (X ! i)" if "i < lookback" for i
    using that lb by (simp add: full_def nth_append)
  have late: "full ! i = lstm (take lookback (drop (i - lookback) X))"
    if "lookback \<le> i" "i < length X" for i
    using that lb by (simp add: full_def nth_append create_sequences_def)
  have "ys ! i = rf (X ! i) \<and> ys ! i = lstm_weight * rf (X ! i) + (1 - lstm_weight) * rf (X ! i)"
    if "i < lookback" for i
    using nth[of i] early[OF that] that lb by (simp add: algebra_simps)
  moreover have "ys ! i = lstm_weight * lstm (take lookback (drop (i - lookback) X))
                            + (1 - lstm_weight) * rf (X ! i)"
    if "lookback \<le> i \<and> i < length X" for i
    using nth[of i] late[of i] that by simp
  ultimately show ?thesis using pe len by blast
qed

lemma predict_ensemble_sample:
  "predict_ensemble sample_forecaster [10, 20, 30] 2 default_lstm_weight = Inr [10, 20, 51]"
  by (simp add: predict_ensemble_def sample_forecaster_def create_sequences_def Let_def
      default_lstm_weight_def upt_rec)

theorem predict_ensemble_blend_witness:
  "lstm_model sample_forecaster = Some (\<lambda>w. 2 * sum_list w)
   \<and> rf_model sample_forecaster = Some (\<lambda>x. x)
   \<and> (2::nat) < length [10, 20, 30 :: real]
   \<and> predict_ensemble sample_forecaster [10, 20, 30] 2 default_lstm_weight = Inr [10, 20, 51]
   \<and> (\<exists>ys. predict_ensemble sample_forecaster [10, 20, 30] 2 default_lstm_weight = Inr ys \<and>
           ys ! 0 = 10 \<and> ys ! 1 = 20 \<and>
           ys ! 2 = default_lstm_weight * (2 * sum_list [10, 20])
                    + (1 - default_lstm_weight) * 30)"
proof -
  have l: "lstm_model sample_forecaster = Some (\<lambda>w. 2 * sum_list w)"
    and r: "rf_model sample_forecaster = Some (\<lambda>x. x)"
    by (simp_all add: sample_forecaster_def)
  have lb: "(2::nat) < length [10, 20, 30 :: real]" by simp
  from predict_ensemble_blend [OF l r lb, of default_lstm_weight]
  obtain ys where ys: "predict_ensemble sample_forecaster [10, 20, 30] 2 default_lstm_weight = Inr ys"
      "\<forall>i<2. ys ! i = [10, 20, 30] ! i"
      "\<forall>i. 2 \<le> i \<and> i < length [10, 20, 30 :: real] \<longrightarrow>
           ys ! i = default_lstm_weight * (2 * sum_list (take 2 (drop (i - 2) [10, 20, 30])))
                    + (1 - default_lstm_weight) * [10, 20, 30] ! i"
    by blast
  from ys(2) have "ys ! 0 = 10" "ys ! 1 = 20" by simp_all
  moreover from ys(3) have "ys ! 2 = default_lstm_weight * (2 * sum_list [10, 20])
                    + (1 - default_lstm_weight) * 30"
    by simp
  ultimately show ?thesis using l r lb ys(1) predict_ensemble_sample by simp
qed


subsection \<open>Spatial interpolation\<close>

lemma length_argsort: "length (argsort ds) = length ds"
  by (simp add: argsort_def)

lemma set_argsort: "set (argsort ds) = {0..<length ds}"
proof -
  have "set (argsort ds) = set (map snd (zip ds [0..<length ds]))"
    by (simp only: argsort_def set_map set_sort)
  also have "map snd (zip ds [0..<length ds]) = [0..<length ds]"
    by (simp add: map_snd_zip)
  finally show ?thesis by simp
qed

lemma set_py_prefix: "set (py_prefix k xs) \<subseteq> set xs"
  by (auto simp add: py_prefix_def dest: in_set_takeD)

lemma length_py_prefix_clamp:
  "1 \<le> k \<Longrightarrow> length (py_prefix (min k (int (length xs))) xs) = nat (min k (int (length xs)))"
  by (auto simp add: py_prefix_def min_def)

lemma clamp_k_min: "clamp_k sd k = min k (int (length sd))"
  by (auto simp add: clamp_k_def min_def)

lemma nearest_indices_bound:
  "i \<in> set (nearest_indices tlat tlon sd k) \<Longrightarrow> i < length sd"
  using set_py_prefix[of "clamp_k sd k" "argsort (station_distances tlat tlon sd)"]
  by (auto simp add: nearest_indices_def set_argsort station_distances_def)

lemma length_nearest_indices:
  "1 \<le> k \<Longrightarrow> length (nearest_indices tlat tlon sd k) = nat (min k (int (length sd)))"
  using length_py_prefix_clamp[of k "argsort (station_distances tlat tlon sd)"]
  by (simp add: nearest_indices_def clamp_k_min length_argsort station_distances_def)

lemma length_nearest_stations [simp]:
  "length (nearest_stations tlat tlon sd k) = length (nearest_indices tlat tlon sd k)"
  by (simp add: nearest_stations_def)

lemma length_nearest_distances [simp]:
  "length (nearest_distances tlat tlon sd k) = length (nearest_indices tlat tlon sd k)"
  by (simp add: nearest_distances_def)

lemma set_nearest_stations: "set (nearest_stations tlat tlon sd k) \<subseteq> set sd"
  using nearest_indices_bound[of _ tlat tlon sd k]
  by (auto simp add: nearest_stations_def)

lemma argmin_less: "ds \<noteq> [] \<Longrightarrow> argmin ds < length ds"
proof -
  assume "ds \<noteq> []"
  then have "Min (set ds) \<in> set ds" by (simp add: Min_in)
  then have "takeWhile (\<lambda>d. d \<noteq> Min (set ds)) ds \<noteq> ds"
    by (metis (mono_tags, lifting) takeWhile_eq_all_conv)
  then have "length (takeWhile (\<lambda>d. d \<noteq> Min (set ds)) ds) \<noteq> length ds"
    by (metis takeWhile_eq_take take_all_iff order_refl) 
  moreover have "length (takeWhile (\<lambda>d. d \<noteq> Min (set ds)) ds) \<le> length ds"
    by (rule length_takeWhile_le)
  ultimately show ?thesis by (simp add: argmin_def)
qed

lemma argmin_nth: "ds \<noteq> [] \<Longrightarrow> ds ! argmin ds = Min (set ds)"
  using argmin_less[of ds] nth_length_takeWhile[of "\<lambda>d. d \<noteq> Min (set ds)" ds]
  by (simp add: argmin_def)

lemma interpolate_features_returns:
  "length acc = n \<Longrightarrow> \<forall>z\<in>set zs. length (feature_values (st_features (snd z))) = n \<Longrightarrow>
     \<exists>v. interpolate_features acc zs = Inr v \<and> length v = n"
proof (induction zs arbitrary: acc)
  case Nil
  then show ?case by simp
next
  case (Cons z zs)
  obtain w s where z: "z = (w, s)" by (cases z)
  with Cons.prems have "length (map ((*) w) (feature_values (st_features s))) = length acc"
    by simp
  then have "np_iadd acc (map ((*) w) (feature_values (st_features s)))
              = Inr (map2 (+) acc (map ((*) w) (feature_values (st_features s))))"
    by (simp add: np_iadd_def)
  moreover have "length (map2 (+) acc (map ((*) w) (feature_values (st_features s)))) = n"
    using Cons.prems z by simp
  ultimately show ?case using Cons.IH[of "map2 (+) acc (map ((*) w) (feature_values (st_features s)))"] Cons.prems z
    by simp
qed

lemma sum_list_normalised:
  fixes ws :: "real list"
  assumes "sum_list ws \<noteq> 0"
  shows "sum_list (map (\<lambda>w. w / sum_list ws) ws) = 1"
proof -
  have "sum_list (map (\<lambda>w. w / t) ws) = sum_list ws / t" for t :: real
    by (induction ws) (simp_all add: add_divide_distrib)
  with assms show ?thesis by simp
qed

lemma raw_weights_positive:
  fixes ds :: "real list"
  assumes "ds \<noteq> []" and "\<forall>d\<in>set ds. 0.1 \<le> d"
  shows "0 < sum_list (map (\<lambda>d. 1.0 / (d powi p)) ds)"
proof -
  have pos: "0 < 1.0 / (d powi p)" if "d \<in> set ds" for d
  proof -
    from that assms(2) have "0 < d" by fastforce
    then show ?thesis by (simp add: zero_less_power_int)
  qed
  from assms(1) pos show ?thesis
  proof (induction ds)
    case Nil
    then show ?case by simp
  next
    case (Cons d ds)
    show ?case
    proof (cases "ds = []")
      case True
      with Cons.prems(2)[of d] show ?thesis by simp
    next
      case False
      with Cons have "0 < sum_list (map (\<lambda>d. 1.0 / (d powi p)) ds)" by simp
      moreover have "0 < 1.0 / (d powi p)" using Cons.prems(2)[of d] by simp
      ultimately show ?thesis by (simp add: add_pos_pos)
    qed
  qed
qed

lemma haversine_same: "haversine_distance a b a b = 0"
  by (simp add: haversine_distance_def Let_def)

lemma interpolation_no_selection:
  "nearest_stations tlat tlon sd k = [] \<Longrightarrow>
     predict_spatial_interpolation tlat tlon sd k p = Inl IndexError"
  by (simp add: predict_spatial_interpolation_def Let_def)

lemma interpolation_near:
  assumes "nearest_stations tlat tlon sd k \<noteq> []"
    and "Min (set (nearest_distances tlat tlon sd k)) < 0.1"
  shows "predict_spatial_interpolation tlat tlon sd k p =
     (let sts = nearest_stations tlat tlon sd k;
          dists = nearest_distances tlat tlon sd k;
          closest_idx = argmin dists
      in case st_features (sts ! closest_idx) of
           PyList v \<Rightarrow> Inl AttributeError
         | NdArray v \<Rightarrow>
             Inr \<lparr>ir_latitude = tlat, ir_longitude = tlon,
                  ir_interpolated_aqi = st_aqi (sts ! closest_idx),
                  ir_interpolated_features = v, ir_method = ''IDW'',
                  ir_k_nearest = clamp_k sd k,
                  ir_nearest_stations =
                    map (\<lambda>i. \<lparr>c_distance_km = dists ! i, c_aqi = st_aqi (sts ! i),
                               c_weight = (if i = closest_idx then 1 else 0)\<rparr>)
                      [0..<length sts]\<rparr>)"
  using assms
  by (simp add: predict_spatial_interpolation_def Let_def list.case_eq_if
        split: features.splits cong: map_cong)

lemma interpolation_far:
  assumes "nearest_stations tlat tlon sd k \<noteq> []"
    and "\<not> Min (set (nearest_distances tlat tlon sd k)) < 0.1"
  shows "predict_spatial_interpolation tlat tlon sd k p =
     (let sts = nearest_stations tlat tlon sd k;
          dists = nearest_distances tlat tlon sd k;
          weights_raw = map (\<lambda>d. 1.0 / (d powi p)) dists;
          weights = map (\<lambda>w. w / sum_list weights_raw) weights_raw
      in case interpolate_features
                (replicate (length (feature_values (st_features (hd sts)))) 0) (zip weights sts) of
           Inl e \<Rightarrow> Inl e
         | Inr fv \<Rightarrow>
             Inr \<lparr>ir_latitude = tlat, ir_longitude = tlon,
                  ir_interpolated_aqi = sum_list (map (\<lambda>(w, s). w * st_aqi s) (zip weights sts)),
                  ir_interpolated_features = fv, ir_method = ''IDW'',
                  ir_k_nearest = clamp_k sd k,
                  ir_nearest_stations =
                    map (\<lambda>i. \<lparr>c_distance_km = dists ! i, c_aqi = st_aqi (sts ! i),
                               c_weight = weights ! i\<rparr>)
                      [0..<length sts]\<rparr>)"
  using assms
  by (simp add: predict_spatial_interpolation_def Let_def list.case_eq_if
        split: sum.splits)

lemma map_zip_nth:
  "length xs = length ys \<Longrightarrow> map f (zip xs ys) = map (\<lambda>i. f (xs ! i, ys ! i)) [0..<length ys]"
  by (rule nth_equalityI) simp_all

lemma selection_nonempty:
  assumes "sd \<noteq> []" "1 \<le> k"
  shows "nearest_stations tlat tlon sd k \<noteq> []"
proof -
  from assms have pos: "0 < nat (min k (int (length sd)))" by (cases sd) (auto simp: min_def)
  have "length (nearest_indices tlat tlon sd k) = nat (min k (int (length sd)))"
    by (rule length_nearest_indices[OF assms(2)])
  with pos have "length (nearest_indices tlat tlon sd k) \<noteq> 0" by linarith
  then show ?thesis by (simp add: nearest_stations_def)
qed

lemma far_not_near:
  assumes "nearest_stations tlat tlon sd k \<noteq> []"
    and "\<forall>d\<in>set (nearest_distances tlat tlon sd k). 0.1 \<le> d"
  shows "\<not> Min (set (nearest_distances tlat tlon sd k)) < 0.1"
proof -
  from assms(1) have "nearest_distances tlat tlon sd k \<noteq> []"
    by (metis length_nearest_distances length_nearest_stations length_0_conv)
  then have "Min (set (nearest_distances tlat tlon sd k)) \<in> set (nearest_distances tlat tlon sd k)"
    by (simp add: Min_in)
  with assms(2) show ?thesis by fastforce
qed

lemma no_stations_index_error: "predict_spatial_interpolation tlat tlon [] k p = Inl IndexError"
  by (rule interpolation_no_selection)
     (simp add: nearest_stations_def nearest_indices_def station_distances_def argsort_def py_prefix_def)

lemma interpolation_k:
  assumes "predict_spatial_interpolation tlat tlon sd k p = Inr r"
  shows "ir_k_nearest r = min k (int (length sd)) \<and>
         length (ir_nearest_stations r) = length (nearest_stations tlat tlon sd k)"
proof -
  have ne: "nearest_stations tlat tlon sd k \<noteq> []"
    using assms interpolation_no_selection[of tlat tlon sd k p] by auto
  show ?thesis
  proof (cases "Min (set (nearest_distances tlat tlon sd k)) < 0.1")
    case True
    from interpolation_near[OF ne True, of p] assms show ?thesis
      by (auto simp add: Let_def clamp_k_min split: features.splits)
  next
    case False
    from interpolation_far[OF ne False, of p] assms show ?thesis
      by (auto simp add: Let_def clamp_k_min split: sum.splits)
  qed
qed

lemma interpolation_returns_arrays:
  assumes sd: "sd \<noteq> []" and k: "1 \<le> k"
    and u: "\<forall>s\<in>set sd. \<exists>v. st_features s = NdArray v \<and> length v = n"
  shows "\<exists>r. predict_spatial_interpolation tlat tlon sd k p = Inr r"
proof -
  define sts where "sts = nearest_stations tlat tlon sd k"
  define dists where "dists = nearest_distances tlat tlon sd k"
  have ne: "sts \<noteq> []" using selection_nonempty[OF sd k] by (simp add: sts_def)
  have sub: "set sts \<subseteq> set sd" by (simp add: sts_def set_nearest_stations)
  have len: "length dists = length sts" by (simp add: sts_def dists_def)
  show ?thesis
  proof (cases "Min (set dists) < 0.1")
    case True
    from ne len have "dists \<noteq> []" by auto
    from argmin_less[OF this] len have "argmin dists < length sts" by simp
    with sub have "sts ! argmin dists \<in> set sd" by (meson nth_mem subsetD)
    with u obtain v where "st_features (sts ! argmin dists) = NdArray v" by blast
    with interpolation_near[OF ne[unfolded sts_def] True[unfolded dists_def], of p] show ?thesis
      by (simp add: Let_def sts_def dists_def)
  next
    case False
    define weights where "weights = map (\<lambda>w. w / sum_list (map (\<lambda>d. 1.0 / (d powi p)) dists))
         (map (\<lambda>d. 1.0 / (d powi p)) dists)"
    from u have u': "\<forall>s\<in>set sd. length (feature_values (st_features s)) = n" by fastforce
    from ne sub have "hd sts \<in> set sd" by (cases sts) auto
    with u' have dim: "length (replicate (length (feature_values (st_features (hd sts)))) (0::real)) = n"
      by simp
    have "\<forall>z\<in>set (zip weights sts). length (feature_values (st_features (snd z))) = n"
      using u' sub by (auto dest: set_zip_rightD)
    from interpolate_features_returns[OF dim this] obtain fv where
      "interpolate_features (replicate (length (feature_values (st_features (hd sts)))) 0)
         (zip weights sts) = Inr fv"
      by blast
    then show ?thesis
      using interpolation_far[OF ne[unfolded sts_def] False[unfolded dists_def], of p]
      by (simp add: Let_def sts_def weights_def dists_def)
  qed
qed

lemma short_circuit_nearest:
  assumes ret: "predict_spatial_interpolation tlat tlon sd k p = Inr r"
    and near: "Min (set (nearest_distances tlat tlon sd k)) < 0.1"
  shows "ir_interpolated_aqi r =
           st_aqi (nearest_stations tlat tlon sd k ! argmin (nearest_distances tlat tlon sd k))
         \<and> map c_weight (ir_nearest_stations r) =
             map (\<lambda>i. if i = argmin (nearest_distances tlat tlon sd k) then 1 else 0)
               [0..<length (nearest_stations tlat tlon sd k)]
         \<and> nearest_distances tlat tlon sd k ! argmin (nearest_distances tlat tlon sd k)
             = Min (set (nearest_distances tlat tlon sd k))"
proof -
  have ne: "nearest_stations tlat tlon sd k \<noteq> []"
    using ret interpolation_no_selection[of tlat tlon sd k p] by auto
  then have dne: "nearest_distances tlat tlon sd k \<noteq> []"
    by (metis length_nearest_distances length_nearest_stations length_0_conv)
  from interpolation_near[OF ne near, of p] ret argmin_nth[OF dne] show ?thesis
    by (auto simp add: Let_def o_def split: features.splits)
qed

text \<open>
  C3 as stated fails: no \<^verbatim>\<open>InsufficientDataError\<close> exists.  On the empty list the clamped
  \<open>k\<close> is 0, no station is selected, and reading the first selected station raises
  Python's \<^verbatim>\<open>IndexError\<close>.
\<close>

theorem interpolation_empty_counterexample:
  "predict_spatial_interpolation 28.65 77.25 [] 3 2 = Inl IndexError"
  by (rule no_stations_index_error)

text \<open>
  C3, amended.  For every call with an empty list of station readings
  \<^verbatim>\<open>predict_spatial_interpolation\<close> fails, with \<^verbatim>\<open>IndexError\<close>.  Whenever it returns, the
  \<open>k\<close> it reports is min(k, number of stations).  For every non-empty list, every
  \<open>k\<close> of at least 1 and feature arrays of one common length it returns, with that \<open>k\<close> and
  that many contributing stations.
\<close>

theorem interpolation_empty_and_clamp:
  "predict_spatial_interpolation tlat tlon [] k p = Inl IndexError
   \<and> (\<forall>r. predict_spatial_interpolation tlat tlon sd k p = Inr r \<longrightarrow>
          ir_k_nearest r = min k (int (length sd)))
   \<and> (sd \<noteq> [] \<longrightarrow> 1 \<le> k \<longrightarrow> (\<forall>s\<in>set sd. \<exists>v. st_features s = NdArray v \<and> length v = n) \<longrightarrow>
        (\<exists>r. predict_spatial_interpolation tlat tlon sd k p = Inr r \<and>
             ir_k_nearest r = min k (int (length sd)) \<and>
             length (ir_nearest_stations r) = nat (min k (int (length sd)))))"
proof (intro conjI allI impI)
  show "predict_spatial_interpolation tlat tlon [] k p = Inl IndexError" by (rule no_stations_index_error)
next
  fix r assume "predict_spatial_interpolation tlat tlon sd k p = Inr r"
  from interpolation_k[OF this] show "ir_k_nearest r = min k (int (length sd))" by simp
next
  assume sd: "sd \<noteq> []" and k: "1 \<le> k"
    and u: "\<forall>s\<in>set sd. \<exists>v. st_features s = NdArray v \<and> length v = n"
  from interpolation_returns_arrays[OF sd k u] obtain r
    where r: "predict_spatial_interpolation tlat tlon sd k p = Inr r" by blast
  from interpolation_k[OF r] length_nearest_indices[OF k, of tlat tlon sd] r
  show "\<exists>r. predict_spatial_interpolation tlat tlon sd k p = Inr r \<and>
             ir_k_nearest r = min k (int (length sd)) \<and>
             length (ir_nearest_stations r) = nat (min k (int (length sd)))"
    by simp
qed

theorem interpolation_empty_and_clamp_witness:
  "[delhi_station_array] \<noteq> [] \<and> (1::int) \<le> 3
   \<and> predict_spatial_interpolation 28.6139 77.2090 [] 3 2 = Inl IndexError
   \<and> (\<exists>r. predict_spatial_interpolation 28.6139 77.2090 [delhi_station_array] 3 2 = Inr r \<and>
           ir_k_nearest r = 1 \<and> length (ir_nearest_stations r) = 1)"
  using interpolation_empty_and_clamp
    [where tlat = "28.6139" and tlon = "77.2090" and k = 3 and p = 2
       and sd = "[delhi_station_array]" and n = 2]
  by (simp add: delhi_station_array_def)

lemma nearest_indices_delhi_list:
  "nearest_indices 28.6139 77.2090 [delhi_station_list] 3 = [0]"
  by (simp add: nearest_indices_def clamp_k_def py_prefix_def argsort_def station_distances_def)

text \<open>
  C7.  With the features of the stations given as Python lists, as \<^verbatim>\<open>main\<close> passes them,
  a target within 100 m of a station does not get that station's AQI: the branch keeps the
  station's list as the interpolated features and the result calls \<^verbatim>\<open>tolist\<close> on it.
  Evaluated with the target on the station itself.
\<close>

theorem short_circuit_list_features_raises:
  "predict_spatial_interpolation 28.6139 77.2090 [delhi_station_list] 3 2 = Inl AttributeError"
proof -
  have d: "nearest_distances 28.6139 77.2090 [delhi_station_list] 3 = [0]"
    unfolding nearest_distances_def nearest_indices_delhi_list
    by (simp add: station_distances_def delhi_station_list_def haversine_same)
  have s: "nearest_stations 28.6139 77.2090 [delhi_station_list] 3 = [delhi_station_list]"
    unfolding nearest_stations_def nearest_indices_delhi_list by simp
  have ne: "nearest_stations 28.6139 77.2090 [delhi_station_list] 3 \<noteq> []"
    unfolding s by simp
  have near: "Min (set (nearest_distances 28.6139 77.2090 [delhi_station_list] 3)) < 0.1"
    unfolding d by simp
  from interpolation_near[OF ne near, of 2] show ?thesis
    unfolding d s by (simp add: Let_def argmin_def delhi_station_list_def)
qed

text \<open>The same call with the features as an array returns the station's AQI, with weight 1.\<close>

lemma nearest_indices_delhi_array:
  "nearest_indices 28.6139 77.2090 [delhi_station_array] 3 = [0]"
  by (simp add: nearest_indices_def clamp_k_def py_prefix_def argsort_def station_distances_def)

lemma interpolation_delhi_array:
  "predict_spatial_interpolation 28.6139 77.2090 [delhi_station_array] 3 2 =
     Inr \<lparr>ir_latitude = 28.6139, ir_longitude = 77.2090, ir_interpolated_aqi = 120,
          ir_interpolated_features = [1, 2], ir_method = ''IDW'', ir_k_nearest = 1,
          ir_nearest_stations = [\<lparr>c_distance_km = 0, c_aqi = 120, c_weight = 1\<rparr>]\<rparr>"
proof -
  have d: "nearest_distances 28.6139 77.2090 [delhi_station_array] 3 = [0]"
    unfolding nearest_distances_def nearest_indices_delhi_array
    by (simp add: station_distances_def delhi_station_array_def haversine_same)
  have s: "nearest_stations 28.6139 77.2090 [delhi_station_array] 3 = [delhi_station_array]"
    unfolding nearest_stations_def nearest_indices_delhi_array by simp
  have ne: "nearest_stations 28.6139 77.2090 [delhi_station_array] 3 \<noteq> []"
    unfolding s by simp
  have near: "Min (set (nearest_distances 28.6139 77.2090 [delhi_station_array] 3)) < 0.1"
    unfolding d by simp
  from interpolation_near[OF ne near, of 2] show ?thesis
    unfolding d s by (simp add: Let_def argmin_def delhi_station_array_def clamp_k_def)
qed

lemma arcsin_half: "arcsin (1 / 2) = pi / 6"
proof -
  have "arcsin (sin (pi / 6)) = pi / 6" by (rule arcsin_sin) simp_all
  then show ?thesis by (simp add: sin_30)
qed

lemma sqrt_quarter: "sqrt (1 / 4) = 1 / 2"
  by (simp add: real_sqrt_divide)

lemma haversine_equator_180: "haversine_distance 0 0 0 180 = 6371 * pi"
  by (simp add: haversine_distance_def radians_def Let_def)

lemma haversine_equator_60: "haversine_distance 0 0 0 60 = 6371 * pi / 3"
proof -
  have r60: "radians 60 = pi / 3" and r0: "radians 0 = 0" by (simp_all add: radians_def)
  have "haversine_distance 0 0 0 60 = 2 * arcsin (sqrt ((sin (pi / 6))\<^sup>2)) * 6371"
    unfolding haversine_distance_def Let_def r60 r0 by simp
  also have "\<dots> = 2 * arcsin (sqrt (1 / 4)) * 6371"
    unfolding sin_30 by (simp add: power2_eq_square)
  also have "\<dots> = 6371 * pi / 3"
    unfolding sqrt_quarter arcsin_half by simp
  finally show ?thesis .
qed

lemma station_distances_equator: "station_distances 0 0 [station_far, station_mid] = [6371 * pi, 6371 * pi / 3]"
  by (simp add: station_distances_def station_far_def station_mid_def haversine_equator_180 haversine_equator_60)

lemma argsort_equator: "argsort [6371 * pi, 6371 * pi / 3] = [1, 0]"
  by (simp add: argsort_def upt_rec)

lemma nearest_indices_equator: "nearest_indices 0 0 [station_far, station_mid] 3 = [1, 0]"
  unfolding nearest_indices_def station_distances_equator argsort_equator by (simp add: clamp_k_def py_prefix_def)

lemma nearest_distances_equator: "nearest_distances 0 0 [station_far, station_mid] 3 = [6371 * pi / 3, 6371 * pi]"
  unfolding nearest_distances_def nearest_indices_equator station_distances_equator by simp

lemma nearest_stations_equator: "nearest_stations 0 0 [station_far, station_mid] 3 = [station_mid, station_far]"
  unfolding nearest_stations_def nearest_indices_equator by simp

lemma weights_equator: "map (\<lambda>d. (1 / d powi 2) / (\<Sum>e\<leftarrow>[6371 * pi / 3, 6371 * pi]. 1 / e powi 2)) [6371 * pi / 3, 6371 * pi]
   = [0.9, 0.1]"
  by (simp add: power2_eq_square field_simps)

text \<open>
  C8.  When every selected station is at least 0.1 km from the target, the weight reported
  for a selected station at distance \<open>d\<close> is \<open>(1 / d ^ power)\<close> divided by the sum of
  \<open>1 / e ^ power\<close> over the distances \<open>e\<close> of the selected stations, the weights sum to 1,
  and the interpolated AQI is the sum of weight times AQI over the reported stations.  With a
  non-empty list, \<open>k\<close> at least 1 and feature vectors of one common length, the
  interpolation returns.
\<close>

theorem idw_weights_normalised:
  assumes far: "\<forall>d\<in>set (nearest_distances tlat tlon sd k). 0.1 \<le> d"
  shows "(\<forall>r. predict_spatial_interpolation tlat tlon sd k p = Inr r \<longrightarrow>
            map c_weight (ir_nearest_stations r) =
              map (\<lambda>d. (1 / d powi p) / (\<Sum>e\<leftarrow>nearest_distances tlat tlon sd k. 1 / e powi p))
                (nearest_distances tlat tlon sd k) \<and>
            map c_aqi (ir_nearest_stations r) = map st_aqi (nearest_stations tlat tlon sd k) \<and>
            sum_list (map c_weight (ir_nearest_stations r)) = 1 \<and>
            ir_interpolated_aqi r = (\<Sum>c\<leftarrow>ir_nearest_stations r. c_weight c * c_aqi c))
       \<and> (sd \<noteq> [] \<longrightarrow> 1 \<le> k \<longrightarrow> (\<forall>s\<in>set sd. length (feature_values (st_features s)) = n) \<longrightarrow>
            (\<exists>r. predict_spatial_interpolation tlat tlon sd k p = Inr r))"
proof (intro conjI allI impI)
  fix r
  assume ret: "predict_spatial_interpolation tlat tlon sd k p = Inr r"
  define sts where "sts = nearest_stations tlat tlon sd k"
  define dists where "dists = nearest_distances tlat tlon sd k"
  define raw where "raw = map (\<lambda>d. 1.0 / (d powi p)) dists"
  define weights where "weights = map (\<lambda>w. w / sum_list raw) raw"
  have ne: "sts \<noteq> []" using ret interpolation_no_selection[of tlat tlon sd k p] by (auto simp: sts_def)
  have len: "length dists = length sts" "length weights = length sts"
    by (simp_all add: sts_def dists_def weights_def raw_def)
  from ne len have dne: "dists \<noteq> []" by auto
  have nn: "\<not> Min (set (nearest_distances tlat tlon sd k)) < 0.1"
    using far_not_near ne far by (simp add: sts_def)
  from interpolation_far[OF ne[unfolded sts_def] nn, of p] ret obtain fv where
    r: "r = \<lparr>ir_latitude = tlat, ir_longitude = tlon,
             ir_interpolated_aqi = sum_list (map (\<lambda>(w, s). w * st_aqi s) (zip weights sts)),
             ir_interpolated_features = fv, ir_method = ''IDW'',
             ir_k_nearest = clamp_k sd k,
             ir_nearest_stations =
               map (\<lambda>i. \<lparr>c_distance_km = dists ! i, c_aqi = st_aqi (sts ! i),
                          c_weight = weights ! i\<rparr>) [0..<length sts]\<rparr>"
    by (auto simp add: Let_def sts_def dists_def weights_def raw_def split: sum.splits)
  have w: "map c_weight (ir_nearest_stations r) = weights"
  proof -
    have "map c_weight (ir_nearest_stations r) = map (\<lambda>i. weights ! i) [0..<length weights]"
      using len by (simp add: r o_def)
    then show ?thesis by (simp only: map_nth)
  qed
  have a: "map c_aqi (ir_nearest_stations r) = map st_aqi sts"
    by (rule nth_equalityI) (simp_all add: r)
  have pos: "0 < sum_list raw"
    using raw_weights_positive[OF dne, of p] far by (simp add: raw_def dists_def)
  have one: "sum_list weights = 1"
    using sum_list_normalised[of raw] pos by (simp add: weights_def)
  have s: "sum_list (map (\<lambda>(w, s). w * st_aqi s) (zip weights sts))
           = (\<Sum>c\<leftarrow>ir_nearest_stations r. c_weight c * c_aqi c)"
    using len by (simp add: map_zip_nth r o_def)
  show "map c_weight (ir_nearest_stations r) =
              map (\<lambda>d. (1 / d powi p) / (\<Sum>e\<leftarrow>nearest_distances tlat tlon sd k. 1 / e powi p))
                (nearest_distances tlat tlon sd k)"
    using w by (simp add: weights_def raw_def dists_def o_def)
  show "map c_aqi (ir_nearest_stations r) = map st_aqi (nearest_stations tlat tlon sd k)"
    using a by (simp add: sts_def)
  show "sum_list (map c_weight (ir_nearest_stations r)) = 1"
    using w one by simp
  show "ir_interpolated_aqi r = (\<Sum>c\<leftarrow>ir_nearest_stations r. c_weight c * c_aqi c)"
    using s by (simp add: r)
next
  assume sd: "sd \<noteq> []" and k: "1 \<le> k"
    and u: "\<forall>s\<in>set sd. length (feature_values (st_features s)) = n"
  define sts where "sts = nearest_stations tlat tlon sd k"
  define weights where "weights = map (\<lambda>w. w / sum_list (map (\<lambda>d. 1.0 / (d powi p)) (nearest_distances tlat tlon sd k)))
         (map (\<lambda>d. 1.0 / (d powi p)) (nearest_distances tlat tlon sd k))"
  have ne: "sts \<noteq> []" using selection_nonempty[OF sd k] by (simp add: sts_def)
  have nn: "\<not> Min (set (nearest_distances tlat tlon sd k)) < 0.1"
    using far_not_near ne far by (simp add: sts_def)
  have sub: "set sts \<subseteq> set sd" by (simp add: sts_def set_nearest_stations)
  from ne sub have "hd sts \<in> set sd" by (cases sts) auto
  with u have dim: "length (replicate (length (feature_values (st_features (hd sts)))) (0::real)) = n"
    by simp
  have "\<forall>z\<in>set (zip weights sts). length (feature_values (st_features (snd z))) = n"
    using u sub by (auto dest: set_zip_rightD)
  from interpolate_features_returns[OF dim this] obtain fv where
    "interpolate_features (replicate (length (feature_values (st_features (hd sts)))) 0)
       (zip weights sts) = Inr fv"
    by blast
  then show "\<exists>r. predict_spatial_interpolation tlat tlon sd k p = Inr r"
    using interpolation_far[OF ne[unfolded sts_def] nn, of p]
    by (simp add: Let_def sts_def weights_def)
qed

theorem idw_weights_normalised_witness:
  "nearest_distances 0 0 [station_far, station_mid] 3 = [6371 * pi / 3, 6371 * pi]
   \<and> 0.1 \<le> 6371 * pi / 3 \<and> 0.1 \<le> 6371 * pi
   \<and> (\<exists>r. predict_spatial_interpolation 0 0 [station_far, station_mid] 3 2 = Inr r \<and>
           map c_weight (ir_nearest_stations r) = [0.9, 0.1] \<and>
           map c_aqi (ir_nearest_stations r) = [200, 100] \<and>
           sum_list (map c_weight (ir_nearest_stations r)) = 1 \<and>
           ir_interpolated_aqi r = 190)"
proof -
  have b: "0.1 \<le> 6371 * pi / 3" "0.1 \<le> 6371 * pi" using pi_ge_two by simp_all
  have far: "\<forall>d\<in>set (nearest_distances 0 0 [station_far, station_mid] 3). 0.1 \<le> d"
    unfolding nearest_distances_equator using b by simp
  note t = idw_weights_normalised [OF far, of 2 1]
  have u: "\<forall>s\<in>set [station_far, station_mid]. length (feature_values (st_features s)) = 1"
    by (simp add: station_far_def station_mid_def)
  from t u obtain r
    where r: "predict_spatial_interpolation 0 0 [station_far, station_mid] 3 2 = Inr r"
    by auto
  with t have w: "map c_weight (ir_nearest_stations r) =
        map (\<lambda>d. (1 / d powi 2) / (\<Sum>e\<leftarrow>nearest_distances 0 0 [station_far, station_mid] 3. 1 / e powi 2))
          (nearest_distances 0 0 [station_far, station_mid] 3)"
    and a: "map c_aqi (ir_nearest_stations r) = map st_aqi (nearest_stations 0 0 [station_far, station_mid] 3)"
    and one: "sum_list (map c_weight (ir_nearest_stations r)) = 1"
    and i: "ir_interpolated_aqi r = (\<Sum>c\<leftarrow>ir_nearest_stations r. c_weight c * c_aqi c)"
    by blast+
  from w have w': "map c_weight (ir_nearest_stations r) = [0.9, 0.1]"
    unfolding nearest_distances_equator weights_equator .
  from a have a': "map c_aqi (ir_nearest_stations r) = [200, 100]"
    unfolding nearest_stations_equator by (simp add: station_far_def station_mid_def)
  from w' a' obtain c1 c2 where c: "ir_nearest_stations r = [c1, c2]"
    "c_weight c1 = 0.9" "c_weight c2 = 0.1" "c_aqi c1 = 200" "c_aqi c2 = 100"
    by (auto simp add: map_eq_Cons_conv)
  from i c have "ir_interpolated_aqi r = 190" by simp
  with r w' a' one b nearest_distances_equator show ?thesis
    by (intro conjI exI[of _ r]) assumption+
qed

subsection \<open>Fusion with a ground station\<close>

text \<open>
  With ground stations whose interpolation returns, \<^verbatim>\<open>predict_hyperlocal\<close> returns with
  confidence high and the clamped, rounded blend of 0.4 times the AOD-derived AQI and 0.6
  times the interpolated AQI, times the time-of-day factor.
\<close>

lemma predict_hyperlocal_ground:
  assumes "stations \<noteq> []"
    and "predict_spatial_interpolation latitude longitude stations 3 2 = Inr sr"
  shows "\<exists>h. predict_hyperlocal latitude longitude aod_value temporal_features (Some stations)
              (Some season) = Inr h \<and>
             hl_confidence h = ''high'' \<and>
             hl_hyperlocal_aqi h =
               round2 (np_clip
                 ((0.4 * (150 * aod_value
                            * (case seasonal_factors season of None \<Rightarrow> 1.0 | Some f \<Rightarrow> f)
                            * hl_latitude_factor h)
                   + 0.6 * ir_interpolated_aqi sr) * hl_temporal_factor h) 0 500)"
  using assms by (simp add: predict_hyperlocal_def Let_def)

lemma predict_hyperlocal_with_station:
  "\<exists>h. predict_hyperlocal 28.6139 77.2090 0.5 [''hour'' \<mapsto> 18, ''month'' \<mapsto> 10]
     (Some [delhi_station_array]) (Some ''autumn'') = Inr h \<and> hl_confidence h = ''high'' \<and>
     hl_temporal_factor h = 1.10 \<and> hl_latitude_factor h = 1.2 \<and> hl_hyperlocal_aqi h = 122.76"
proof -
  have ne: "[delhi_station_array] \<noteq> []" by simp
  from predict_hyperlocal_ground[OF ne interpolation_delhi_array,
      of "0.5" "[''hour'' \<mapsto> 18, ''month'' \<mapsto> 10]" "''autumn''"]
  obtain h where h: "predict_hyperlocal 28.6139 77.2090 0.5 [''hour'' \<mapsto> 18, ''month'' \<mapsto> 10]
     (Some [delhi_station_array]) (Some ''autumn'') = Inr h"
    and c: "hl_confidence h = ''high''"
    and a: "hl_hyperlocal_aqi h =
               round2 (np_clip
                 ((0.4 * (150 * 0.5
                            * (case seasonal_factors ''autumn'' of None \<Rightarrow> 1.0 | Some f \<Rightarrow> f)
                            * hl_latitude_factor h)
                   + 0.6 * 120) * hl_temporal_factor h) 0 500)"
    by auto
  from h have f: "hl_temporal_factor h = 1.10" "hl_latitude_factor h = 1.2"
    by (auto simp add: predict_hyperlocal_def Let_def split: sum.splits)
  have "hl_hyperlocal_aqi h = 122.76"
    unfolding a f by (simp add: seasonal_factors_def np_clip_def round2_def round_half_even_def)
  with h c f show ?thesis by blast
qed

end
